theory Spec2Isabelle
  imports Main "HOL-Library.Log_Nat"
begin

section \<open>Strings\<close>

text \<open>
  A JavaScript string is modelled as a list of code units; the model covers the code units
  below 256 (ASCII and Latin-1), which is what \<^typ>\<open>char\<close> holds. Within that range the
  white space of \<open>String.prototype.trim\<close>, of the regular expression class \<open>\s\<close> and of
  \<open>parseFloat\<close> is TAB, LF, VT, FF, CR, SPACE and NBSP.
\<close>

definition code :: "char \<Rightarrow> nat" where
  "code c = of_char c"

definition is_ws :: "char \<Rightarrow> bool" where
  "is_ws c = (code c \<in> {9, 10, 11, 12, 13, 32, 160})"

definition is_digit :: "char \<Rightarrow> bool" where
  "is_digit c = (48 \<le> code c \<and> code c \<le> 57)"

definition digit_val :: "char \<Rightarrow> nat" where
  "digit_val c = code c - 48"

text \<open>\<open>toLowerCase\<close>: the letters A to Z, and the Latin-1 capitals (all of 192 to 222 but the
  multiplication sign), move up by 32.\<close>

definition lower_char :: "char \<Rightarrow> char" where
  "lower_char c =
     (if (65 \<le> code c \<and> code c \<le> 90) \<or> (192 \<le> code c \<and> code c \<le> 222 \<and> code c \<noteq> 215)
      then char_of (code c + 32) else c)"

definition toLowerCase :: "string \<Rightarrow> string" where
  "toLowerCase s = map lower_char s"

definition trimStart :: "string \<Rightarrow> string" where
  "trimStart s = dropWhile is_ws s"

definition trim :: "string \<Rightarrow> string" where
  "trim s = rev (dropWhile is_ws (rev (dropWhile is_ws s)))"

definition startsWith :: "string \<Rightarrow> string \<Rightarrow> bool" where
  "startsWith s p = (take (length p) s = p)"

text \<open>\<open>s.replace(/\s+/g, '')\<close> deletes every run of white space, \<open>s.replace(/-/g, '')\<close> every
  hyphen.\<close>

definition strip_ws :: "string \<Rightarrow> string" where
  "strip_ws s = filter (\<lambda>c. \<not> is_ws c) s"

definition strip_hyphens :: "string \<Rightarrow> string" where
  "strip_hyphens s = filter (\<lambda>c. c \<noteq> CHR ''-'') s"

text \<open>The value of a run of decimal digits, and of a run of digits in another radix.\<close>

definition dec_value :: "string \<Rightarrow> nat" where
  "dec_value ds = foldl (\<lambda>a c. 10 * a + digit_val c) 0 ds"

definition radix_digit :: "nat \<Rightarrow> char \<Rightarrow> nat option" where
  "radix_digit r c =
     (let n = code c;
          v = (if 48 \<le> n \<and> n \<le> 57 then Some (n - 48)
               else if 97 \<le> n \<and> n \<le> 122 then Some (n - 87)
               else if 65 \<le> n \<and> n \<le> 90 then Some (n - 55)
               else None)
      in case v of None \<Rightarrow> None | Some d \<Rightarrow> if d < r then Some d else None)"

definition radix_value :: "nat \<Rightarrow> string \<Rightarrow> nat" where
  "radix_value r ds = foldl (\<lambda>a c. r * a + (case radix_digit r c of None \<Rightarrow> 0 | Some d \<Rightarrow> d)) 0 ds"

section \<open>Numbers\<close>

text \<open>
  A JavaScript number is an IEEE 754 binary64 value: not-a-number, an infinity, or a finite
  value, held here as the rational it denotes (the sign of zero is not kept; no operation of
  the program tells the two zeros apart). \<open>fl64\<close> rounds a rational to the nearest binary64
  value, ties to the even significand, with gradual underflow below \<open>2 powi (-1022)\<close> and
  overflow to an infinity from \<open>2 powi 1024\<close> on.
\<close>

datatype jsnum = NaN | PInf | NInf | Fin rat

definition ilog2 :: "rat \<Rightarrow> int" where
  "ilog2 a = (let (p, q) = quotient_of a; e0 = bitlen p - bitlen q
              in if 2 powi e0 \<le> a then e0 else e0 - 1)"

definition round_half_even :: "rat \<Rightarrow> int" where
  "round_half_even m =
     (let f = \<lfloor>m\<rfloor>; d = m - of_int f
      in if d < 1 / 2 then f else if 1 / 2 < d then f + 1 else if even f then f else f + 1)"

definition fl64 :: "rat \<Rightarrow> jsnum" where
  "fl64 x =
     (if x = 0 then Fin 0
      else let a = \<bar>x\<bar>;
               e = max (ilog2 a) (- 1022);
               u = 2 powi (e - 52);
               r = of_int (round_half_even (a / u)) * u
           in if 2 powi 1024 \<le> r then (if 0 < x then PInf else NInf)
              else Fin (if 0 < x then r else - r))"

definition isNaN :: "jsnum \<Rightarrow> bool" where
  "isNaN x = (x = NaN)"

text \<open>The comparisons \<open>x <= 0\<close> and \<open>x > 0\<close>; both are false on not-a-number.\<close>

fun le_zero :: "jsnum \<Rightarrow> bool" where
  "le_zero NaN = False"
| "le_zero PInf = False"
| "le_zero NInf = True"
| "le_zero (Fin r) = (r \<le> 0)"

fun gt_zero :: "jsnum \<Rightarrow> bool" where
  "gt_zero NaN = False"
| "gt_zero PInf = True"
| "gt_zero NInf = False"
| "gt_zero (Fin r) = (0 < r)"

fun num_le :: "jsnum \<Rightarrow> rat \<Rightarrow> bool" where
  "num_le NaN b = False"
| "num_le PInf b = False"
| "num_le NInf b = True"
| "num_le (Fin r) b = (r \<le> b)"

fun num_neg :: "jsnum \<Rightarrow> jsnum" where
  "num_neg NaN = NaN"
| "num_neg PInf = NInf"
| "num_neg NInf = PInf"
| "num_neg (Fin r) = Fin (- r)"

fun isInteger :: "jsnum \<Rightarrow> bool" where
  "isInteger (Fin r) = (of_int \<lfloor>r\<rfloor> = r)"
| "isInteger _ = False"

text \<open>\<open>Math.round\<close>: the nearest integer, a half rounding up.\<close>

fun Math_round :: "jsnum \<Rightarrow> jsnum" where
  "Math_round (Fin r) = Fin (of_int \<lfloor>r + 1 / 2\<rfloor>)"
| "Math_round x = x"

text \<open>The product of two numbers, rounded once.\<close>

fun num_mul :: "jsnum \<Rightarrow> jsnum \<Rightarrow> jsnum" where
  "num_mul (Fin a) (Fin b) = fl64 (a * b)"
| "num_mul NaN _ = NaN"
| "num_mul _ NaN = NaN"
| "num_mul (Fin a) PInf = (if a = 0 then NaN else if 0 < a then PInf else NInf)"
| "num_mul (Fin a) NInf = (if a = 0 then NaN else if 0 < a then NInf else PInf)"
| "num_mul PInf (Fin b) = (if b = 0 then NaN else if 0 < b then PInf else NInf)"
| "num_mul NInf (Fin b) = (if b = 0 then NaN else if 0 < b then NInf else PInf)"
| "num_mul PInf PInf = PInf"
| "num_mul NInf NInf = PInf"
| "num_mul PInf NInf = NInf"
| "num_mul NInf PInf = NInf"

subsection \<open>Reading numbers from strings\<close>

text \<open>
  \<open>scan_decimal\<close> reads the longest prefix that is a \<open>StrDecimalLiteral\<close> (an optional sign,
  then \<open>Infinity\<close> or digits with an optional fraction and an optional exponent) and returns
  its value with the rest of the string, or \<open>None\<close> when no prefix is one.
\<close>

definition scan_exponent :: "string \<Rightarrow> int \<times> string" where
  "scan_exponent s =
     (case s of
        [] \<Rightarrow> (0, s)
      | e # t \<Rightarrow>
          if e = CHR ''e'' \<or> e = CHR ''E'' then
            (let neg = (t \<noteq> [] \<and> hd t = CHR ''-'');
                 t' = (if t \<noteq> [] \<and> (hd t = CHR ''-'' \<or> hd t = CHR ''+'') then tl t else t);
                 ds = takeWhile is_digit t'
             in if ds = [] then (0, s)
                else ((if neg then - int (dec_value ds) else int (dec_value ds)),
                      dropWhile is_digit t'))
          else (0, s))"

definition scan_unsigned :: "string \<Rightarrow> (jsnum \<times> string) option" where
  "scan_unsigned s =
     (if startsWith s ''Infinity'' then Some (PInf, drop 8 s)
      else let ip = takeWhile is_digit s;
               r1 = dropWhile is_digit s;
               dot = (r1 \<noteq> [] \<and> hd r1 = CHR ''.'');
               fp = (if dot then takeWhile is_digit (tl r1) else []);
               r2 = (if dot then dropWhile is_digit (tl r1) else r1)
           in if ip = [] \<and> fp = [] then None
              else let (ex, r3) = scan_exponent r2;
                       mv = (of_nat (dec_value ip) + of_nat (dec_value fp) / 10 ^ length fp)
                              * 10 powi ex
                   in Some (fl64 mv, r3))"

definition scan_decimal :: "string \<Rightarrow> (jsnum \<times> string) option" where
  "scan_decimal s =
     (case s of
        [] \<Rightarrow> None
      | c # t \<Rightarrow>
          if c = CHR ''-'' then map_option (\<lambda>(v, r). (num_neg v, r)) (scan_unsigned t)
          else if c = CHR ''+'' then scan_unsigned t
          else scan_unsigned s)"

definition parseFloat :: "string \<Rightarrow> jsnum" where
  "parseFloat s = (case scan_decimal (trimStart s) of None \<Rightarrow> NaN | Some (v, r) \<Rightarrow> v)"

text \<open>\<open>parseInt\<close> with no radix argument: radix 16 after a \<open>0x\<close> prefix, radix 10 otherwise.\<close>

definition parseInt :: "string \<Rightarrow> jsnum" where
  "parseInt s =
     (let s1 = trimStart s;
          neg = (s1 \<noteq> [] \<and> hd s1 = CHR ''-'');
          s2 = (if s1 \<noteq> [] \<and> (hd s1 = CHR ''-'' \<or> hd s1 = CHR ''+'') then tl s1 else s1);
          hex = (startsWith s2 ''0x'' \<or> startsWith s2 ''0X'');
          r = (if hex then 16 else 10);
          s3 = (if hex then drop 2 s2 else s2);
          ds = takeWhile (\<lambda>c. radix_digit r c \<noteq> None) s3
      in if ds = [] then NaN
         else let v = fl64 (of_nat (radix_value r ds)) in if neg then num_neg v else v)"

text \<open>\<open>StringToNumber\<close>, the conversion that \<open>isNaN\<close> and \<open>Math.round\<close> apply to a string: the
  whole trimmed string must be a numeric literal, and the empty string is zero.\<close>

definition StringToNumber :: "string \<Rightarrow> jsnum" where
  "StringToNumber s =
     (let t = trim s in
      if t = [] then Fin 0
      else if startsWith t ''0x'' \<or> startsWith t ''0X'' then
        (if drop 2 t \<noteq> [] \<and> list_all (\<lambda>c. radix_digit 16 c \<noteq> None) (drop 2 t)
         then fl64 (of_nat (radix_value 16 (drop 2 t))) else NaN)
      else if startsWith t ''0o'' \<or> startsWith t ''0O'' then
        (if drop 2 t \<noteq> [] \<and> list_all (\<lambda>c. radix_digit 8 c \<noteq> None) (drop 2 t)
         then fl64 (of_nat (radix_value 8 (drop 2 t))) else NaN)
      else if startsWith t ''0b'' \<or> startsWith t ''0B'' then
        (if drop 2 t \<noteq> [] \<and> list_all (\<lambda>c. radix_digit 2 c \<noteq> None) (drop 2 t)
         then fl64 (of_nat (radix_value 2 (drop 2 t))) else NaN)
      else case scan_decimal t of
             None \<Rightarrow> NaN
           | Some (v, r) \<Rightarrow> if r = [] then v else NaN)"

section \<open>JSON values\<close>

text \<open>
  The values that \<open>JSON.parse\<close> and \<open>request.json()\<close> produce. An object is the list of its
  members in the order they were written; where a key is repeated the last member wins. A
  property that is absent reads as \<open>undefined\<close>, which is \<open>None\<close> here.
\<close>

datatype json =
    JNull
  | JBool bool
  | JNum jsnum
  | JStr string
  | JArr "json list"
  | JObj "(string \<times> json) list"

fun get_prop :: "json \<Rightarrow> string \<Rightarrow> json option" where
  "get_prop (JObj kvs) k = map_of (rev kvs) k"
| "get_prop _ k = None"

text \<open>Truthiness: \<open>undefined\<close>, \<open>null\<close>, \<open>false\<close>, zero, not-a-number and the empty string are
  falsy, everything else is truthy.\<close>

fun truthy :: "json option \<Rightarrow> bool" where
  "truthy None = False"
| "truthy (Some JNull) = False"
| "truthy (Some (JBool b)) = b"
| "truthy (Some (JNum x)) = (x \<noteq> NaN \<and> x \<noteq> Fin 0)"
| "truthy (Some (JStr s)) = (s \<noteq> [])"
| "truthy (Some (JArr vs)) = True"
| "truthy (Some (JObj kvs)) = True"

text \<open>
  The string conversion of a value that is not a string. An object has the conversion of
  \<open>Object.prototype\<close>, the text \<open>[object Object]\<close>, unless it has a member of its own named
  \<open>toString\<close>: a member read from JSON is never a function, so the conversion then finds
  nothing to call and raises a \<open>TypeError\<close>. An array converts every element that is not
  \<open>null\<close> and joins the results with commas, so it raises when one of its elements does. The
  conversion to a number goes through the same steps and raises for the same values.
\<close>

fun ToString_raises :: "json \<Rightarrow> bool" where
  "ToString_raises (JObj kvs) = (''toString'' \<in> set (map fst kvs))"
| "ToString_raises (JArr vs) = list_ex ToString_raises vs"
| "ToString_raises JNull = False"
| "ToString_raises (JBool b) = False"
| "ToString_raises (JNum x) = False"
| "ToString_raises (JStr s) = False"

text \<open>
  \<open>parseFloat v\<close> for a value that need not be a string: \<open>parseFloat\<close> reads a prefix of the
  string conversion of \<open>v\<close>, and the result is \<open>None\<close> when that conversion raises. A number
  converts to its shortest round-trip literal, which reads back as the number; \<open>true\<close>,
  \<open>false\<close>, \<open>null\<close> and an object convert to words with no numeric prefix; an array converts
  to its elements joined by commas (\<open>null\<close> giving the empty string), so only its first
  element can contribute a prefix.
\<close>

fun parseFloat_of :: "json \<Rightarrow> jsnum option" where
  "parseFloat_of (JStr s) = Some (parseFloat s)"
| "parseFloat_of (JNum x) = Some x"
| "parseFloat_of JNull = Some NaN"
| "parseFloat_of (JBool b) = Some NaN"
| "parseFloat_of (JObj kvs) = (if ToString_raises (JObj kvs) then None else Some NaN)"
| "parseFloat_of (JArr []) = Some NaN"
| "parseFloat_of (JArr (v # vs)) =
     (if ToString_raises (JArr (v # vs)) then None
      else if v = JNull then Some NaN
      else parseFloat_of v)"

text \<open>
  \<open>ToNumber v\<close>, the conversion that \<open>isNaN\<close> and \<open>Math.round\<close> apply to their argument, \<open>None\<close>
  when it raises. An array converts through its string conversion, which is numeric only for
  the empty array and for a single element that is itself \<open>null\<close>, a number, a numeric string
  or such an array.
\<close>

fun ToNumber :: "json \<Rightarrow> jsnum option" where
  "ToNumber JNull = Some (Fin 0)"
| "ToNumber (JBool b) = Some (Fin (if b then 1 else 0))"
| "ToNumber (JNum x) = Some x"
| "ToNumber (JStr s) = Some (StringToNumber s)"
| "ToNumber (JObj kvs) = (if ToString_raises (JObj kvs) then None else Some NaN)"
| "ToNumber (JArr []) = Some (Fin 0)"
| "ToNumber (JArr [v]) =
     (if ToString_raises v then None
      else case v of
             JNull \<Rightarrow> Some (Fin 0)
           | JBool b \<Rightarrow> Some NaN
           | _ \<Rightarrow> ToNumber v)"
| "ToNumber (JArr (v # w # vs)) =
     (if ToString_raises (JArr (v # w # vs)) then None else Some NaN)"

text \<open>What \<open>JSON.stringify\<close> writes for a number: \<open>null\<close> for not-a-number and the infinities.\<close>

fun json_of_num :: "jsnum \<Rightarrow> json" where
  "json_of_num (Fin r) = JNum (Fin r)"
| "json_of_num _ = JNull"

subsection \<open>\<open>JSON.parse\<close>\<close>

text \<open>
  A lexer followed by a stack machine over the tokens. The result is \<open>None\<close> where
  \<open>JSON.parse\<close> throws a \<open>SyntaxError\<close>. An escape \<open>\uXXXX\<close> above \<open>00FF\<close> lies outside the
  modelled alphabet and is read as the substitute character \<open>0x1A\<close>.
\<close>

datatype token = TLBrace | TRBrace | TLBrack | TRBrack | TColon | TComma | TLit json

definition json_ws :: "char \<Rightarrow> bool" where
  "json_ws c = (code c \<in> {9, 10, 13, 32})"

definition escape_char :: "char \<Rightarrow> char option" where
  "escape_char e =
     (if e = CHR 0x22 then Some (CHR 0x22)
      else if e = CHR 0x5C then Some (CHR 0x5C)
      else if e = CHR ''/'' then Some (CHR ''/'')
      else if e = CHR ''b'' then Some (CHR 0x08)
      else if e = CHR ''f'' then Some (CHR 0x0C)
      else if e = CHR ''n'' then Some (CHR 0x0A)
      else if e = CHR ''r'' then Some (CHR 0x0D)
      else if e = CHR ''t'' then Some (CHR 0x09)
      else None)"

definition unicode_unit :: "string \<Rightarrow> char" where
  "unicode_unit hs = (let n = radix_value 16 hs in if n < 256 then char_of n else CHR 0x1A)"

function lex_string :: "string \<Rightarrow> (string \<times> string) option" where
  "lex_string [] = None"
| "lex_string (c # cs) =
     (if c = CHR 0x22 then Some ([], cs)
      else if c = CHR 0x5C then
        (case cs of
           [] \<Rightarrow> None
         | e # cs' \<Rightarrow>
             if e = CHR ''u'' then
               (if 4 \<le> length cs' \<and> list_all (\<lambda>h. radix_digit 16 h \<noteq> None) (take 4 cs')
                then map_option (\<lambda>(s, r). (unicode_unit (take 4 cs') # s, r)) (lex_string (drop 4 cs'))
                else None)
             else (case escape_char e of
                     None \<Rightarrow> None
                   | Some ch \<Rightarrow> map_option (\<lambda>(s, r). (ch # s, r)) (lex_string cs')))
      else if code c < 32 then None
      else map_option (\<lambda>(s, r). (c # s, r)) (lex_string cs))"
  by pat_completeness auto
termination
  by (relation "measure length") auto

text \<open>A JSON number: \<open>-? (0 | [1-9][0-9]*) (. [0-9]+)? ([eE] [+-]? [0-9]+)?\<close>.\<close>

definition number_char :: "char \<Rightarrow> bool" where
  "number_char c = (is_digit c \<or> c \<in> set ''+-.eE'')"

definition json_exponent_ok :: "string \<Rightarrow> bool" where
  "json_exponent_ok s =
     (case s of
        [] \<Rightarrow> True
      | e # t \<Rightarrow>
          (e = CHR ''e'' \<or> e = CHR ''E'') \<and>
          (let t' = (if t \<noteq> [] \<and> (hd t = CHR ''-'' \<or> hd t = CHR ''+'') then tl t else t)
           in t' \<noteq> [] \<and> list_all is_digit t'))"

definition json_number_ok :: "string \<Rightarrow> bool" where
  "json_number_ok s =
     (let s1 = (if s \<noteq> [] \<and> hd s = CHR ''-'' then tl s else s);
          ip = takeWhile is_digit s1;
          r1 = dropWhile is_digit s1
      in ip \<noteq> [] \<and> (ip = ''0'' \<or> hd ip \<noteq> CHR ''0'') \<and>
         (if r1 \<noteq> [] \<and> hd r1 = CHR ''.''
          then takeWhile is_digit (tl r1) \<noteq> [] \<and> json_exponent_ok (dropWhile is_digit (tl r1))
          else json_exponent_ok r1))"

definition json_number :: "string \<Rightarrow> jsnum option" where
  "json_number s =
     (if json_number_ok s then map_option fst (scan_decimal s) else None)"

lemma lex_string_shorter: "lex_string cs = Some (v, r) \<Longrightarrow> length r < Suc (length cs)"
proof (induction cs arbitrary: v r rule: lex_string.induct)
  case 1
  then show ?case by simp
next
  case (2 c cs)
  then show ?case
    by (fastforce split: if_splits list.splits option.splits)
qed

function lex :: "string \<Rightarrow> token list option" where
  "lex [] = Some []"
| "lex (c # cs) =
     (if json_ws c then lex cs
      else if c = CHR ''{'' then map_option ((#) TLBrace) (lex cs)
      else if c = CHR ''}'' then map_option ((#) TRBrace) (lex cs)
      else if c = CHR ''['' then map_option ((#) TLBrack) (lex cs)
      else if c = CHR '']'' then map_option ((#) TRBrack) (lex cs)
      else if c = CHR '':'' then map_option ((#) TColon) (lex cs)
      else if c = CHR '','' then map_option ((#) TComma) (lex cs)
      else if c = CHR 0x22 then
        (case lex_string cs of
           None \<Rightarrow> None
         | Some (s, r) \<Rightarrow> map_option ((#) (TLit (JStr s))) (lex r))
      else if startsWith (c # cs) ''null'' then map_option ((#) (TLit JNull)) (lex (drop 3 cs))
      else if startsWith (c # cs) ''true'' then map_option ((#) (TLit (JBool True))) (lex (drop 3 cs))
      else if startsWith (c # cs) ''false'' then map_option ((#) (TLit (JBool False))) (lex (drop 4 cs))
      else if number_char c then
        (case json_number (c # takeWhile number_char cs) of
           None \<Rightarrow> None
         | Some x \<Rightarrow> map_option ((#) (TLit (JNum x))) (lex (dropWhile number_char cs)))
      else None)"
  by pat_completeness auto
termination
  by (relation "measure length") (auto dest: lex_string_shorter simp: less_Suc_eq_le length_dropWhile_le)

datatype frame = AFrame "json list" | OFrame "(string \<times> json) list" "string option"

datatype mode = MValue | MArrFirst | MObjFirst | MKey | MColon | MAfter

datatype pstate = Run mode "frame list" | Done json | Fail

fun put_value :: "json \<Rightarrow> frame list \<Rightarrow> pstate" where
  "put_value v [] = Done v"
| "put_value v (AFrame es # st) = Run MAfter (AFrame (v # es) # st)"
| "put_value v (OFrame kvs (Some k) # st) = Run MAfter (OFrame ((k, v) # kvs) None # st)"
| "put_value v (OFrame kvs None # st) = Fail"

fun close_array :: "frame list \<Rightarrow> pstate" where
  "close_array (AFrame es # st) = put_value (JArr (rev es)) st"
| "close_array _ = Fail"

fun close_object :: "frame list \<Rightarrow> pstate" where
  "close_object (OFrame kvs None # st) = put_value (JObj (rev kvs)) st"
| "close_object _ = Fail"

definition begin_value :: "frame list \<Rightarrow> token \<Rightarrow> pstate" where
  "begin_value st tok =
     (case tok of
        TLit v \<Rightarrow> put_value v st
      | TLBrack \<Rightarrow> Run MArrFirst (AFrame [] # st)
      | TLBrace \<Rightarrow> Run MObjFirst (OFrame [] None # st)
      | _ \<Rightarrow> Fail)"

definition read_key :: "frame list \<Rightarrow> token \<Rightarrow> pstate" where
  "read_key st tok =
     (case tok of
        TLit (JStr k) \<Rightarrow>
          (case st of
             OFrame kvs None # st' \<Rightarrow> Run MColon (OFrame kvs (Some k) # st')
           | _ \<Rightarrow> Fail)
      | _ \<Rightarrow> Fail)"

definition after_value :: "frame list \<Rightarrow> token \<Rightarrow> pstate" where
  "after_value st tok =
     (case tok of
        TComma \<Rightarrow>
          (case st of
             AFrame es # st' \<Rightarrow> Run MValue st
           | OFrame kvs None # st' \<Rightarrow> Run MKey st
           | _ \<Rightarrow> Fail)
      | TRBrack \<Rightarrow> close_array st
      | TRBrace \<Rightarrow> close_object st
      | _ \<Rightarrow> Fail)"

definition step :: "pstate \<Rightarrow> token \<Rightarrow> pstate" where
  "step ps tok =
     (case ps of
        Run m st \<Rightarrow>
          (case m of
             MValue \<Rightarrow> begin_value st tok
           | MArrFirst \<Rightarrow> if tok = TRBrack then close_array st else begin_value st tok
           | MObjFirst \<Rightarrow> if tok = TRBrace then close_object st else read_key st tok
           | MKey \<Rightarrow> read_key st tok
           | MColon \<Rightarrow> if tok = TColon then Run MValue st else Fail
           | MAfter \<Rightarrow> after_value st tok)
      | _ \<Rightarrow> Fail)"

definition JSON_parse :: "string \<Rightarrow> json option" where
  "JSON_parse s =
     (case lex s of
        None \<Rightarrow> None
      | Some ts \<Rightarrow> (case foldl step (Run MValue []) ts of Done v \<Rightarrow> Some v | _ \<Rightarrow> None))"

section \<open>Text with embedded numbers\<close>

text \<open>
  The prompt is a template literal. A string is kept as \<open>Text\<close>; where a number is
  interpolated the segment \<open>Number x\<close> stands for the string conversion of \<open>x\<close>, which is
  left unexpanded.
\<close>

datatype seg = Text string | Number jsnum

function show_nat :: "nat \<Rightarrow> string" where
  "show_nat n = (if n < 10 then [char_of (48 + n)] else show_nat (n div 10) @ [char_of (48 + n mod 10)])"
  by pat_completeness auto
termination
  by (relation "measure id") auto

declare show_nat.simps [simp del]

text \<open>
  \<open>x.toFixed(1)\<close>: for a finite \<open>x\<close> below \<open>10^21\<close> in magnitude, the integer \<open>n\<close> with \<open>n / 10\<close>
  nearest to \<open>\<bar>x\<bar>\<close> (the larger one on a tie), written with one digit after the point and the
  sign of \<open>x\<close>; otherwise the string conversion of \<open>x\<close>.
\<close>

definition tenths :: "rat \<Rightarrow> nat" where
  "tenths x = nat \<lfloor>\<bar>x\<bar> * 10 + 1 / 2\<rfloor>"

definition fixed1 :: "rat \<Rightarrow> string" where
  "fixed1 x =
     (let m = show_nat (tenths x);
          m' = (if length m \<le> 1 then ''0'' @ m else m);
          k = length m'
      in (if x < 0 then ''-'' else []) @ take (k - 1) m' @ ''.'' @ drop (k - 1) m')"

fun toFixed1 :: "jsnum \<Rightarrow> seg" where
  "toFixed1 (Fin x) = (if \<bar>x\<bar> < 10 ^ 21 then Text (fixed1 x) else Number (Fin x))"
| "toFixed1 x = Number x"

section \<open>The client form controller (app/page.tsx)\<close>

definition isPushUp :: "string \<Rightarrow> bool" where
  "isPushUp workout =
     (if workout = [] then False
      else let trimmed = trim workout in
        if trimmed = [] then False
        else let normalized = strip_hyphens (strip_ws (toLowerCase trimmed)) in
          normalized = ''pushup'' \<or> normalized = ''pushups'' \<or> startsWith normalized ''pushup'')"

text \<open>The state variables \<open>workoutType\<close>, \<open>duration\<close>, \<open>reps\<close>, \<open>runningPace\<close>, \<open>weight\<close> and
  \<open>weightUnit\<close>: the value of each input, a string as the user typed it.\<close>

record form =
  workoutType_input :: string
  duration_input :: string
  reps_input :: string
  runningPace_input :: string
  weight_input :: string
  weightUnit_input :: string

text \<open>What a submission does: a blocking notification and nothing else, or one request with
  the given JSON body.\<close>

datatype submit = Alert string | Fetch json

definition request_body :: "form \<Rightarrow> json" where
  "request_body f =
     (let isPushUpWorkout = isPushUp (workoutType_input f);
          isRunning = (toLowerCase (trim (workoutType_input f)) = ''run''
                       \<or> toLowerCase (trim (workoutType_input f)) = ''running'')
      in JObj
        ([(''workoutType'', JStr (trim (workoutType_input f)))]
         @ (if isPushUpWorkout then [(''reps'', json_of_num (parseInt (reps_input f)))]
            else [(''duration'', json_of_num (parseFloat (duration_input f)))])
         @ (if isRunning \<and> trim (runningPace_input f) \<noteq> []
            then [(''runningPace'', JStr (trim (runningPace_input f)))] else [])
         @ (if trim (weight_input f) \<noteq> []
            then [(''weight'', JStr (trim (weight_input f))), (''weightUnit'', JStr (weightUnit_input f))]
            else [])))"

definition handleSubmit :: "form \<Rightarrow> submit" where
  "handleSubmit f =
     (let isPushUpWorkout = isPushUp (workoutType_input f) in
      if trim (workoutType_input f) = [] then Alert ''Please fill in the workout type''
      else if isPushUpWorkout then
        (if trim (reps_input f) = [] then Alert ''Please fill in the number of reps''
         else let repsNum = parseFloat (reps_input f) in
           if isNaN repsNum \<or> le_zero repsNum \<or> \<not> isInteger repsNum
           then Alert ''Please enter a valid number of reps (must be a positive whole number)''
           else Fetch (request_body f))
      else
        (if trim (duration_input f) = [] then Alert ''Please fill in the duration''
         else let durationNum = parseFloat (duration_input f) in
           if isNaN durationNum \<or> le_zero durationNum
           then Alert ''Please enter a valid duration (in minutes)''
           else Fetch (request_body f)))"

subsection \<open>History and its persisted record\<close>

text \<open>
  A history entry is the object \<open>{id, ...workout, timestamp}\<close>. The spread copies the own
  properties of the response data: the members of an object, the indexed elements of an array
  or a string, nothing for another value.
\<close>

fun spread :: "json \<Rightarrow> (string \<times> json) list" where
  "spread (JObj kvs) = kvs"
| "spread (JArr vs) = zip (map show_nat [0..<length vs]) vs"
| "spread (JStr s) = zip (map show_nat [0..<length s]) (map (\<lambda>c. JStr [c]) s)"
| "spread _ = []"

definition addToHistory :: "nat \<Rightarrow> string \<Rightarrow> json \<Rightarrow> json list \<Rightarrow> json list" where
  "addToHistory now stamp workout prev =
     JObj ([(''id'', JStr (show_nat now))] @ spread workout @ [(''timestamp'', JStr stamp)]) # prev"

text \<open>A field of an entry is populated when it is present and not \<open>null\<close>.\<close>

definition populated :: "json \<Rightarrow> string \<Rightarrow> bool" where
  "populated e k = (case get_prop e k of None \<Rightarrow> False | Some JNull \<Rightarrow> False | Some v \<Rightarrow> True)"

text \<open>
  Client storage maps a key to the value whose JSON text is stored under it. The state that
  deletion works on is the history list together with the storage.
\<close>

type_synonym storage = "string \<rightharpoonup> json"

definition history_key :: string where
  "history_key = ''fitness-tracker-history''"

definition deleteWorkout :: "bool \<Rightarrow> string \<Rightarrow> json list \<times> storage \<Rightarrow> json list \<times> storage" where
  "deleteWorkout confirmed ident st =
     (case st of (workoutHistory, localStorage) \<Rightarrow>
        if confirmed then
          (let updatedHistory = filter (\<lambda>workout. get_prop workout ''id'' \<noteq> Some (JStr ident)) workoutHistory
           in (updatedHistory,
               if 0 < length updatedHistory
               then localStorage(history_key \<mapsto> JArr updatedHistory)
               else localStorage(history_key := None)))
        else st)"

text \<open>The effect that runs after every change of the history: a non-empty list is saved.\<close>

definition save_effect :: "json list \<times> storage \<Rightarrow> json list \<times> storage" where
  "save_effect st =
     (case st of (workoutHistory, localStorage) \<Rightarrow>
        if 0 < length workoutHistory
        then (workoutHistory, localStorage(history_key \<mapsto> JArr workoutHistory))
        else st)"

section \<open>The calorie-estimation gateway (the POST handler)\<close>

text \<open>
  The completion service is an input of the model: a function from the prompt it is sent to
  what the call does. The call throws an \<open>APIError\<close> with a message and a code (\<open>None\<close> for a
  code that is missing or empty), throws another error with a message, or returns, and then
  \<open>completion.choices[0]?.message?.content\<close> is a string or is missing.
\<close>

datatype service_outcome =
    APIError string "string option"
  | OtherError string
  | Completion "string option"

text \<open>
  A response is the success body with status 200, or an error body \<open>{error, details?}\<close> with
  status 400 or 500. The message of an exception that the runtime raises (a \<open>TypeError\<close>,
  the \<open>SyntaxError\<close> of an unreadable request body) is chosen by the runtime and is kept
  abstract as \<open>Runtime_message\<close>.
\<close>

datatype err_status = Status_400 | Status_500

datatype error_text = Message string | Runtime_message

datatype response = Ok json | Rejected err_status error_text "string option"

fun status_code :: "response \<Rightarrow> nat" where
  "status_code (Ok d) = 200"
| "status_code (Rejected Status_400 m d) = 400"
| "status_code (Rejected Status_500 m d) = 500"

definition nl :: string where
  "nl = [CHR 0x0A]"

text \<open>The literal \<open>0.453592\<close> is the binary64 value nearest to it.\<close>

definition lbs_to_kg :: jsnum where
  "lbs_to_kg = fl64 (453592 / 1000000)"

text \<open>Lines 58 to 76: \<open>weightInfo\<close> and \<open>weightForCalculation\<close>, or \<open>None\<close> when \<open>parseFloat\<close>
  raises.\<close>

definition weight_texts :: "json option \<Rightarrow> json option \<Rightarrow> (seg list \<times> seg list) option" where
  "weight_texts weight weightUnit =
     (if truthy weight then
        (case parseFloat_of (the weight) of
           None \<Rightarrow> None
         | Some weightNum \<Rightarrow>
             if \<not> isNaN weightNum \<and> gt_zero weightNum then
               (let unit = (if truthy weightUnit then weightUnit else Some (JStr ''kg'')) in
                if unit = Some (JStr ''lbs'') then
                  (let weightKg = num_mul weightNum lbs_to_kg in
                   Some ([Text (nl @ ''Weight: ''), Number weightNum, Text '' lbs ('', toFixed1 weightKg,
                          Text '' kg)''],
                         [toFixed1 weightKg, Text '' kg'']))
                else
                  Some ([Text (nl @ ''Weight: ''), Number weightNum, Text '' kg''],
                        [Number weightNum, Text '' kg'']))
             else Some ([], []))
      else Some ([], []))"

text \<open>The first match of \<open>/(\d+\.?\d*)/\<close>: the first run of digits, a point if one follows, and
  the digits after it.\<close>

definition pace_match :: "string \<Rightarrow> string option" where
  "pace_match s =
     (let t = dropWhile (\<lambda>c. \<not> is_digit c) s;
          ds = takeWhile is_digit t;
          r = dropWhile is_digit t
      in if ds = [] then None
         else if r \<noteq> [] \<and> hd r = CHR ''.'' then Some (ds @ ''.'' @ takeWhile is_digit (tl r))
         else Some ds)"

definition pace_guidance :: "string \<Rightarrow> seg list" where
  \<open>pace_guidance runningPace =
     (case pace_match runningPace of
        None \<Rightarrow> []
      | Some m \<Rightarrow>
          (let paceNum = parseFloat m in
           [Text (nl @ nl @ ''IMPORTANT: The pace is ''), Number paceNum, Text ('' min/km. '' @ nl @
              ''- A pace of ''), Number paceNum,
            Text '' min/km means the runner covers 1 kilometer in '', Number paceNum,
            Text ('' minutes.'' @ nl @
              ''- FASTER paces (LOWER min/km numbers) = HIGHER intensity = MORE calories burned per minute.'' @ nl @
              ''- For example: 5 min/km burns MORE calories than 7 min/km for the same duration.'' @ nl @
              ''- Calculate calories based on this intensity level. A ''), Number paceNum,
            Text '' min/km pace is '',
            Text (if num_le paceNum 5 then ''very fast/high intensity''
                  else if num_le paceNum 6 then ''fast/moderate-high intensity''
                  else if num_le paceNum 7 then ''moderate intensity''
                  else ''slow/moderate-low intensity''),
            Text ''.'']))\<close>

text \<open>Lines 92 to 107: the prompt. \<open>pace\<close> is the running pace when the workout is running and
  a pace was given, and \<open>None\<close> otherwise.\<close>

definition build_prompt ::
  "string \<Rightarrow> jsnum \<Rightarrow> string option \<Rightarrow> seg list \<Rightarrow> seg list \<Rightarrow> seg list \<Rightarrow> seg list" where
  \<open>build_prompt workoutType durationNum pace weightInfo weightForCalculation paceGuidance =
     [Text (''Calculate the approximate number of calories burned for the following workout:'' @ nl @
            ''    '' @ nl @
            ''Workout Type: '' @ workoutType @ nl @
            ''Duration: ''), Number durationNum, Text '' minutes'']
     @ (case pace of
          None \<Rightarrow> []
        | Some runningPace \<Rightarrow> [Text (nl @ ''Running Pace: '' @ runningPace @ '' (in min/km format)'')])
     @ weightInfo @ paceGuidance
     @ [Text (nl @ nl @
            ''Please provide:'' @ nl @
            ''1. The estimated number of calories burned (as a single number, no text)'' @ nl @
            ''2. A brief explanation (1-2 sentences) of how you calculated this'' @ nl @ nl)]
     @ (if weightForCalculation \<noteq> []
        then [Text ''Use the person's weight of ''] @ weightForCalculation @
             [Text '' to calculate calories. Heavier people burn more calories for the same activity.'']
        else [Text ''Assume an average adult (weighing approximately 70kg/154lbs) performing this activity.''])
     @ [Text '' '']
     @ (case pace of
          Some runningPace \<Rightarrow>
            [Text (''Use the running pace to determine intensity. Remember: LOWER min/km = FASTER pace = MORE calories per minute. A ''
                   @ runningPace @
                   '' pace should result in higher calorie burn than a slower pace for the same duration.'')]
        | None \<Rightarrow> [Text ''Use moderate intensity unless otherwise specified.''])
     @ [Text (nl @ nl @
            ''Format your response as JSON with this structure:'' @ nl @
            ''{'' @ nl @
            ''  "calories": <number>,'' @ nl @
            ''  "explanation": "<brief explanation>"'' @ nl @
            ''}'')]\<close>

text \<open>Lines 148 to 158: the validity check on \<open>result.calories\<close> and the success body. Reading a
  member of \<open>null\<close> raises a \<open>TypeError\<close>, and so does \<open>isNaN\<close> when the conversion of the
  calories to a number raises; the \<open>catch\<close> block answers both.\<close>

definition finish :: "json \<Rightarrow> json \<Rightarrow> jsnum \<Rightarrow> response" where
  "finish result workoutType durationNum =
     (if result = JNull then Rejected Status_500 Runtime_message None
      else let calories = get_prop result ''calories'' in
        if \<not> truthy calories
        then Rejected Status_500 (Message ''Invalid calorie calculation from OpenAI'') None
        else (case ToNumber (the calories) of
                None \<Rightarrow> Rejected Status_500 Runtime_message None
              | Some n \<Rightarrow>
                  if isNaN n
                  then Rejected Status_500 (Message ''Invalid calorie calculation from OpenAI'') None
                  else Ok (JObj
                    [(''calories'', json_of_num (Math_round n)),
                     (''explanation'',
                        (if truthy (get_prop result ''explanation'') then the (get_prop result ''explanation'')
                         else JStr ''Calories calculated based on workout type and duration.'')),
                     (''workoutType'', workoutType),
                     (''duration'', json_of_num durationNum)])))"

text \<open>Lines 126 to 146: the reply is parsed as JSON; when that fails the first run of digits
  (\<open>/\d+/\<close>) is the calorie figure and the raw text the explanation.\<close>

definition digits_match :: "string \<Rightarrow> string option" where
  "digits_match s =
     (let ds = takeWhile is_digit (dropWhile (\<lambda>c. \<not> is_digit c) s)
      in if ds = [] then None else Some ds)"

definition read_reply :: "string option \<Rightarrow> json \<Rightarrow> jsnum \<Rightarrow> response" where
  "read_reply content workoutType durationNum =
     (case content of
        None \<Rightarrow> Rejected Status_500 (Message ''No response from OpenAI'') None
      | Some responseContent \<Rightarrow>
          if responseContent = [] then Rejected Status_500 (Message ''No response from OpenAI'') None
          else (case JSON_parse responseContent of
                  Some result \<Rightarrow> finish result workoutType durationNum
                | None \<Rightarrow>
                    (case digits_match responseContent of
                       Some caloriesMatch \<Rightarrow>
                         finish (JObj [(''calories'', JNum (parseInt caloriesMatch)),
                                       (''explanation'', JStr responseContent)])
                           workoutType durationNum
                     | None \<Rightarrow>
                         Rejected Status_500 (Message ''Could not parse OpenAI response'') None)))"

text \<open>The \<open>catch\<close> block, for an error thrown by the call to the service.\<close>

definition call_service :: "(seg list \<Rightarrow> service_outcome) \<Rightarrow> seg list \<Rightarrow> json \<Rightarrow> jsnum \<Rightarrow> response" where
  "call_service openai prompt workoutType durationNum =
     (case openai prompt of
        APIError msg c \<Rightarrow>
          Rejected Status_500 (Message (''OpenAI API error: '' @ msg))
            (case c of None \<Rightarrow> None | Some cd \<Rightarrow> Some (''Error code: '' @ cd))
      | OtherError msg \<Rightarrow>
          Rejected Status_500
            (Message (if msg = [] then ''Failed to calculate calories. Please try again.'' else msg)) None
      | Completion content \<Rightarrow> read_reply content workoutType durationNum)"

text \<open>
  Lines 49 to 107, once the request and the credential are accepted; \<open>durationNum\<close> is the
  number that the validation read. \<open>toLowerCase\<close> on a workout type that is not a string,
  \<open>parseFloat\<close> on a weight whose string conversion raises, and \<open>match\<close> on a pace that is not
  a string, raise a \<open>TypeError\<close>: the result is then \<open>None\<close>.
\<close>

definition the_prompt :: "json \<Rightarrow> (seg list) option" where
  "the_prompt body =
     (case get_prop body ''workoutType'' of
        Some (JStr workoutType) \<Rightarrow>
          (let durationNum = the (parseFloat_of (the (get_prop body ''duration'')));
               runningPace = get_prop body ''runningPace'';
               isRunning = (toLowerCase workoutType = ''run'' \<or> toLowerCase workoutType = ''running'')
           in case weight_texts (get_prop body ''weight'') (get_prop body ''weightUnit'') of
                None \<Rightarrow> None
              | Some (weightInfo, weightForCalculation) \<Rightarrow>
                  if isRunning \<and> truthy runningPace then
                    (case runningPace of
                       Some (JStr pace) \<Rightarrow>
                         Some (build_prompt workoutType durationNum (Some pace) weightInfo
                                 weightForCalculation (pace_guidance pace))
                     | _ \<Rightarrow> None)
                  else Some (build_prompt workoutType durationNum None weightInfo weightForCalculation []))
      | _ \<Rightarrow> None)"

text \<open>
  Lines 17 to 31, \<open>Validate input\<close>: the response when the handler answers in these lines, or
  \<open>None\<close> when the request passes. The two validation errors have status 400; when
  \<open>parseFloat(duration)\<close> raises a \<open>TypeError\<close> the \<open>catch\<close> block answers with status 500.
\<close>

definition validate_input :: "json \<Rightarrow> response option" where
  "validate_input body =
     (let workoutType = get_prop body ''workoutType'';
          duration = get_prop body ''duration''
      in if \<not> truthy workoutType \<or> \<not> truthy duration
         then Some (Rejected Status_400 (Message ''Workout type and duration are required'') None)
         else (case parseFloat_of (the duration) of
                 None \<Rightarrow> Some (Rejected Status_500 Runtime_message None)
               | Some durationNum \<Rightarrow>
                   if isNaN durationNum \<or> le_zero durationNum
                   then Some (Rejected Status_400 (Message ''Duration must be a positive number'') None)
                   else None))"

text \<open>Lines 33 to 47, the two checks of \<open>process.env.OPENAI_API_KEY\<close> (\<open>None\<close> when unset).\<close>

definition check_api_key :: "string option \<Rightarrow> response option" where
  \<open>check_api_key api_key =
     (if api_key = None \<or> api_key = Some []
      then Some (Rejected Status_500
                   (Message ''OpenAI API key is not configured. Please set OPENAI_API_KEY in your environment variables.'')
                   None)
      else if \<not> startsWith (the api_key) ''sk-''
      then Some (Rejected Status_400
                   (Message ''Invalid API key format. OpenAI API keys should start with "sk-".'') None)
      else None)\<close>

text \<open>
  The handler. Its inputs are the credential, the completion service, and the request body
  (\<open>None\<close> when \<open>request.json()\<close> throws). Destructuring a body that is \<open>null\<close> raises a
  \<open>TypeError\<close>.
\<close>

definition POST :: "string option \<Rightarrow> (seg list \<Rightarrow> service_outcome) \<Rightarrow> json option \<Rightarrow> response" where
  "POST api_key openai request_json =
     (case request_json of
        None \<Rightarrow> Rejected Status_500 Runtime_message None
      | Some body \<Rightarrow>
          if body = JNull then Rejected Status_500 Runtime_message None
          else (case validate_input body of
                  Some rejection \<Rightarrow> rejection
                | None \<Rightarrow>
                    (case check_api_key api_key of
                       Some rejection \<Rightarrow> rejection
                     | None \<Rightarrow>
                         (case the_prompt body of
                            None \<Rightarrow> Rejected Status_500 Runtime_message None
                          | Some prompt \<Rightarrow>
                              call_service openai prompt (the (get_prop body ''workoutType''))
                                (the (parseFloat_of (the (get_prop body ''duration''))))))))"

text \<open>
  The client after a submission: a request is answered by the gateway, and a success
  response (status 200, JSON) is added to the history; an error response or a blocked
  submission leaves the history as it was.
\<close>

definition submit_and_record ::
  "string option \<Rightarrow> (seg list \<Rightarrow> service_outcome) \<Rightarrow> nat \<Rightarrow> string \<Rightarrow> form \<Rightarrow> json list \<Rightarrow> json list" where
  "submit_and_record api_key openai now stamp f workoutHistory =
     (case handleSubmit f of
        Alert msg \<Rightarrow> workoutHistory
      | Fetch body \<Rightarrow>
          (case POST api_key openai (Some body) of
             Ok data \<Rightarrow> addToHistory now stamp data workoutHistory
           | Rejected st m d \<Rightarrow> workoutHistory))"

section \<open>Notions of the specification\<close>

text \<open>The normal form of a workout label as the specification words it: lowercased, with
  white space and hyphens stripped.\<close>

definition spec_normalize :: "string \<Rightarrow> string" where
  "spec_normalize w = filter (\<lambda>c. \<not> is_ws c \<and> c \<noteq> CHR ''-'') (toLowerCase w)"

text \<open>
  A field \<open>parses to a positive number\<close> when \<open>parseFloat\<close> of it is greater than zero, and
  \<open>to a positive integer\<close> when that value is moreover a whole number.
\<close>

definition parses_positive :: "string \<Rightarrow> bool" where
  "parses_positive s = gt_zero (parseFloat s)"

definition parses_positive_integer :: "string \<Rightarrow> bool" where
  "parses_positive_integer s = (gt_zero (parseFloat s) \<and> isInteger (parseFloat s))"

text \<open>When the specification lets a submission through: the workout type is non-empty after
  trimming and, in push-up mode, the reps field parses to a positive integer, and otherwise
  the duration field parses to a positive number.\<close>

definition spec_may_submit :: "form \<Rightarrow> bool" where
  "spec_may_submit f =
     (trim (workoutType_input f) \<noteq> [] \<and>
      (if isPushUp (workoutType_input f) then parses_positive_integer (reps_input f)
       else parses_positive (duration_input f)))"

section \<open>Scenarios\<close>

text \<open>The scenario of the specification: workout type \<open>Push-Ups\<close>, reps \<open>20\<close>, nothing else
  filled in, the unit selector at its default.\<close>

definition pushups_form :: form where
  "pushups_form = \<lparr>workoutType_input = ''Push-Ups'', duration_input = [], reps_input = ''20'',
     runningPace_input = [], weight_input = [], weightUnit_input = ''lbs''\<rparr>"

text \<open>A request that passes the gateway's validation, and two history entries.\<close>

definition yoga_body :: json where
  "yoga_body = JObj [(''workoutType'', JStr ''Yoga''), (''duration'', JNum (Fin 30))]"

definition entry_a :: json where
  "entry_a = JObj [(''id'', JStr ''1700000000000''), (''calories'', JNum (Fin 120)),
     (''workoutType'', JStr ''Yoga''), (''duration'', JNum (Fin 30)),
     (''timestamp'', JStr ''2023-11-14T22:13:20.000Z'')]"

definition entry_b :: json where
  "entry_b = JObj [(''id'', JStr ''1700000600000''), (''calories'', JNum (Fin 300)),
     (''workoutType'', JStr ''Cycling''), (''duration'', JNum (Fin 45)),
     (''timestamp'', JStr ''2023-11-14T22:23:20.000Z'')]"

text \<open>A duration workout: type \<open>Yoga\<close>, duration \<open>30\<close>.\<close>

definition yoga_form :: form where
  "yoga_form = \<lparr>workoutType_input = ''Yoga'', duration_input = ''30'', reps_input = [],
     runningPace_input = [], weight_input = [], weightUnit_input = ''lbs''\<rparr>"

text \<open>A running request with a weight in pounds, and two completion services: one whose
  reply has no content, and one that replies with a given text.\<close>

definition run_body :: "string \<Rightarrow> json" where
  "run_body w = JObj [(''workoutType'', JStr ''Running''), (''duration'', JNum (Fin 30)),
     (''weight'', JStr w), (''weightUnit'', JStr ''lbs'')]"

definition silent_service :: "seg list \<Rightarrow> service_outcome" where
  "silent_service prompt = Completion None"

definition replying :: "string \<Rightarrow> seg list \<Rightarrow> service_outcome" where
  "replying content prompt = Completion (Some content)"

declare silent_service_def [simp] replying_def [simp]

section \<open>Properties of the string operations\<close>

lemma code_lower:
  "lower_char c \<noteq> c \<Longrightarrow>
     code (lower_char c) = code c + 32 \<and> ((65 \<le> code c \<and> code c \<le> 90) \<or> (192 \<le> code c \<and> code c \<le> 222))"
  by (auto simp: lower_char_def code_def split: if_splits)

lemma is_ws_lower [simp]: "is_ws (lower_char c) = is_ws c"
  by (cases "lower_char c = c") (auto simp: is_ws_def dest!: code_lower)

lemma hyphen_lower [simp]: "(lower_char c = CHR ''-'') = (c = CHR ''-'')"
proof (cases "lower_char c = c")
  case True
  then show ?thesis by simp
next
  case False
  from code_lower[OF this] have "code (lower_char c) \<noteq> 45" "code c \<noteq> 45" by auto
  then show ?thesis by (auto simp: code_def)
qed

lemma filter_dropWhile_ws: "filter (\<lambda>c. \<not> is_ws c) (dropWhile is_ws xs) = filter (\<lambda>c. \<not> is_ws c) xs"
  by (induction xs) auto

lemma filter_trim: "filter (\<lambda>c. \<not> is_ws c) (trim s) = filter (\<lambda>c. \<not> is_ws c) s"
  unfolding trim_def by (simp add: filter_dropWhile_ws flip: rev_filter)

lemma normalize_eq: "strip_hyphens (strip_ws (toLowerCase (trim w))) = spec_normalize w"
proof -
  have "strip_ws (toLowerCase (trim w)) = strip_ws (toLowerCase w)"
    using filter_trim[of w]
    by (simp add: strip_ws_def toLowerCase_def filter_map comp_def)
  then show ?thesis
    by (simp add: strip_hyphens_def strip_ws_def spec_normalize_def conj_commute)
qed

lemma dropWhile_not_hd: "dropWhile P xs \<noteq> [] \<Longrightarrow> \<not> P (hd (dropWhile P xs))"
  by (induction xs) auto

lemma trim_Nil_iff: "(trim s = []) = (\<forall>c\<in>set s. is_ws c)"
proof -
  have "(trim s = []) = (\<forall>c\<in>set (dropWhile is_ws s). is_ws c)"
    by (simp add: trim_def dropWhile_eq_Nil_conv)
  also have "\<dots> = (dropWhile is_ws s = [])"
  proof (cases "dropWhile is_ws s = []")
    case True
    then show ?thesis by (simp del: dropWhile_eq_Nil_conv)
  next
    case False
    then have "hd (dropWhile is_ws s) \<in> set (dropWhile is_ws s)" by (rule hd_in_set)
    with False dropWhile_not_hd[OF False] show ?thesis by blast
  qed
  finally show ?thesis by (simp add: dropWhile_eq_Nil_conv)
qed

section \<open>Properties of the rounding to binary64\<close>

lemma round_half_even_of_int: "round_half_even (of_int k) = k"
  by (simp add: round_half_even_def)

lemma round_half_even_near:
  assumes "of_int n - 1 / 2 < m" "m < of_int n + 1 / 2"
  shows "round_half_even m = n"
proof (cases "of_int n \<le> m")
  case True
  with assms have "\<lfloor>m\<rfloor> = n" by (intro floor_unique) auto
  with assms True show ?thesis by (simp add: round_half_even_def Let_def)
next
  case False
  with assms have f: "\<lfloor>m\<rfloor> = n - 1" by (intro floor_unique) auto
  with assms False show ?thesis by (auto simp add: round_half_even_def Let_def)
qed

lemma pow2_less_iff: "((2::rat) powi m < 2 powi n) = (m < n)"
proof
  assume "(2::rat) powi m < 2 powi n"
  show "m < n"
  proof (rule ccontr)
    assume "\<not> m < n"
    then have "n \<le> m" by simp
    then have "(2::rat) powi n \<le> 2 powi m" by (intro power_int_increasing) auto
    with \<open>(2::rat) powi m < 2 powi n\<close> show False by simp
  qed
next
  assume "m < n"
  then show "(2::rat) powi m < 2 powi n" by (intro power_int_strict_increasing) auto
qed

lemma bitlen_pow2_bounds:
  assumes "0 < p"
  shows "2 powi (bitlen p - 1) \<le> (of_int p :: rat) \<and> (of_int p :: rat) < 2 powi bitlen p"
proof -
  from bitlen_bounds[OF assms] have b: "2 ^ nat (bitlen p - 1) \<le> p" "p < 2 ^ nat (bitlen p)" by auto
  have pos: "1 \<le> bitlen p" using assms bitlen_eq_zero_iff[of p] bitlen_nonneg[of p] by linarith
  from b(1) have "(of_int (2 ^ nat (bitlen p - 1)) :: rat) \<le> of_int p" by (simp only: of_int_le_iff)
  moreover from b(2) have "(of_int p :: rat) < of_int (2 ^ nat (bitlen p))" by (simp only: of_int_less_iff)
  ultimately show ?thesis using pos by (simp add: power_int_def)
qed

lemma ilog2_bounds:
  assumes "0 < a"
  shows "2 powi ilog2 a \<le> a \<and> a < 2 powi (ilog2 a + 1)"
proof -
  obtain p q where pq: "quotient_of a = (p, q)" by (cases "quotient_of a")
  then have q: "0 < q" and a: "a = of_int p / of_int q"
    by (auto simp: quotient_of_denom_pos quotient_of_div)
  from assms a q have p: "0 < p" by (simp add: zero_less_divide_iff)
  define bp bq where "bp = bitlen p" and "bq = bitlen q"
  from bitlen_pow2_bounds[OF p] have bp1: "2 powi (bp - 1) \<le> (of_int p :: rat)" and bp2: "(of_int p :: rat) < 2 powi bp"
    by (auto simp: bp_def)
  from bitlen_pow2_bounds[OF q] have bq1: "2 powi (bq - 1) \<le> (of_int q :: rat)" and bq2: "(of_int q :: rat) < 2 powi bq"
    by (auto simp: bq_def)
  have qpos: "(0::rat) < of_int q" using q by simp
  have "2 powi (bp - bq - 1) * (of_int q :: rat) < 2 powi (bp - bq - 1) * 2 powi bq"
    using bq2 by (intro mult_strict_left_mono) auto
  also have "\<dots> = 2 powi (bp - 1)" by (simp flip: power_int_add)
  also have "\<dots> \<le> of_int p" by (rule bp1)
  finally have lo: "2 powi (bp - bq - 1) < a" using qpos by (simp add: a pos_less_divide_eq)
  have "(of_int p :: rat) < 2 powi bp" by (rule bp2)
  also have "\<dots> = 2 powi (bp - bq + 1) * 2 powi (bq - 1)" by (simp flip: power_int_add)
  also have "\<dots> \<le> 2 powi (bp - bq + 1) * of_int q" using bq1 by (intro mult_left_mono) auto
  finally have hi: "a < 2 powi (bp - bq + 1)" using qpos by (simp add: a pos_divide_less_eq)
  show ?thesis
  proof (cases "2 powi (bp - bq) \<le> a")
    case True
    then have "ilog2 a = bp - bq" by (simp add: ilog2_def pq bp_def bq_def)
    with True hi show ?thesis by simp
  next
    case False
    then have "ilog2 a = bp - bq - 1" by (simp add: ilog2_def pq bp_def bq_def)
    with False lo show ?thesis by simp
  qed
qed

lemma ilog2_unique:
  assumes "0 < a" "2 powi e \<le> a" "a < 2 powi (e + 1)"
  shows "ilog2 a = e"
proof -
  from ilog2_bounds[OF assms(1)] have b: "2 powi ilog2 a \<le> a" "a < 2 powi (ilog2 a + 1)" by auto
  have "(2::rat) powi e < 2 powi (ilog2 a + 1)" using assms(2) b(2) by simp
  then have 1: "e < ilog2 a + 1" by (simp only: pow2_less_iff)
  have "(2::rat) powi ilog2 a < 2 powi (e + 1)" using assms(3) b(1) by simp
  then have 2: "ilog2 a < e + 1" by (simp only: pow2_less_iff)
  from 1 2 show ?thesis by simp
qed

lemma fl64_pos_unfold:
  assumes "0 < x" "ilog2 x = e" "- 1022 \<le> e" "round_half_even (x / 2 powi (e - 52)) = n"
    and "of_int n * 2 powi (e - 52) < (2::rat) powi 1024"
  shows "fl64 x = Fin (of_int n * 2 powi (e - 52))"
proof -
  have a: "\<bar>x\<bar> = x" using assms(1) by simp
  have x0: "(x = 0) = False" using assms(1) by simp
  have m: "max (ilog2 x) (- 1022) = e" using assms(2,3) by simp
  have ov: "((2::rat) powi 1024 \<le> of_int n * 2 powi (e - 52)) = False"
    using assms(5) by (simp only: not_le[symmetric] simp_thms)
  have px: "(0 < x) = True" using assms(1) by simp
  show ?thesis
    unfolding fl64_def Let_def a m assms(4) x0 ov px by (simp only: if_False if_True)
qed

lemma fl64_near:
  assumes "0 < x" "2 powi e \<le> x" "x < 2 powi (e + 1)" "- 1022 \<le> e"
    and "of_int n - 1 / 2 < x / 2 powi (e - 52)" "x / 2 powi (e - 52) < of_int n + 1 / 2"
    and "of_int n * 2 powi (e - 52) < (2::rat) powi 1024"
  shows "fl64 x = Fin (of_int n * 2 powi (e - 52))"
proof -
  have e: "ilog2 x = e" using assms(1-3) by (intro ilog2_unique)
  have r: "round_half_even (x / 2 powi (e - 52)) = n"
    using assms(5,6) by (intro round_half_even_near)
  show ?thesis by (rule fl64_pos_unfold[OF assms(1) e assms(4) r assms(7)])
qed

lemma fl64_exact:
  assumes "0 < x" "2 powi e \<le> x" "x < 2 powi (e + 1)" "- 1022 \<le> e" "e < 1024"
    and "x / 2 powi (e - 52) = of_int k"
  shows "fl64 x = Fin x"
proof -
  have e: "ilog2 x = e" using assms(1-3) by (intro ilog2_unique)
  have r: "round_half_even (x / 2 powi (e - 52)) = k"
    by (simp only: assms(6) round_half_even_of_int)
  have k: "of_int k * 2 powi (e - 52) = x" by (simp flip: assms(6))
  have "(2::rat) powi (e + 1) \<le> 2 powi 1024" using assms(5) by (intro power_int_increasing) auto
  with assms(3) have "x < 2 powi 1024" by (rule less_le_trans)
  then have "of_int k * 2 powi (e - 52) < (2::rat) powi 1024" by (simp only: k)
  from fl64_pos_unfold[OF assms(1) e assms(4) r this] show ?thesis by (simp only: k)
qed


lemma fl64_of_nat_small:
  assumes "n < 2 ^ 53"
  shows "fl64 (of_nat n) = Fin (of_nat n)"
proof (cases "n = 0")
  case True
  then show ?thesis by (simp add: fl64_def)
next
  case False
  define x :: rat where "x = of_nat n"
  have xpos: "0 < x" using False by (simp add: x_def)
  define e where "e = ilog2 x"
  from ilog2_bounds[OF xpos] have lo: "2 powi e \<le> x" and hi: "x < 2 powi (e + 1)"
    by (auto simp: e_def)
  have "(1::rat) \<le> x" using False by (simp add: x_def)
  with hi have "(2::rat) powi 0 < 2 powi (e + 1)" by simp
  then have e0: "0 \<le> e" by (simp only: pow2_less_iff)
  have "x < 2 ^ 53" using assms unfolding x_def by (metis of_nat_less_iff of_nat_numeral of_nat_power)
  with lo have "(2::rat) powi e < 2 powi 53" by simp
  then have e53: "e < 53" by (simp only: pow2_less_iff)
  have "x / 2 powi (e - 52) = x * 2 powi (52 - e)"
    by (simp add: power_int_diff field_simps)
  also have "\<dots> = of_int (int n * 2 ^ nat (52 - e))"
    using e53 by (simp add: x_def power_int_def)
  finally have k: "x / 2 powi (e - 52) = of_int (int n * 2 ^ nat (52 - e))" .
  have e1: "- 1022 \<le> e" and e2: "e < 1024" using e0 e53 by auto
  have "fl64 x = Fin x"
    by (rule fl64_exact[OF xpos lo hi e1 e2 k])
  then show ?thesis by (simp add: x_def)
qed

lemma fl64_numeral: "numeral k < (2::nat) ^ 53 \<Longrightarrow> fl64 (numeral k) = Fin (numeral k)"
  using fl64_of_nat_small[of "numeral k"] by simp

section \<open>The push-up predicate\<close>

lemma isPushUp_normal_form: "isPushUp w = startsWith (spec_normalize w) ''pushup''"
proof (cases "trim w = []")
  case True
  then have "spec_normalize w = []"
    by (auto simp: trim_Nil_iff spec_normalize_def toLowerCase_def filter_empty_conv)
  with True show ?thesis by (simp add: isPushUp_def startsWith_def Let_def)
next
  case False
  then have "w \<noteq> []" by (auto simp: trim_def)
  with False show ?thesis
    by (auto simp: isPushUp_def Let_def normalize_eq startsWith_def)
qed

text \<open>
  C4, as the code has it: \<open>isPushUp\<close> holds exactly for the labels whose normal form
  (lowercased, white space and hyphens stripped) starts with \<open>pushup\<close>. That covers \<open>pushup\<close>,
  \<open>pushups\<close> and every hyphen and space variant of them, and it gives false for the empty and
  the white-space-only label, whose normal form is empty.
\<close>

theorem isPushUp_prefix: "isPushUp w = startsWith (spec_normalize w) ''pushup''"
  by (rule isPushUp_normal_form)

text \<open>
  C4 as stated fails: the label \<open>push-up plank\<close> is not empty and its normal form is neither
  \<open>pushup\<close> nor \<open>pushups\<close>, yet the predicate holds for it.
\<close>

theorem isPushUp_other_label_counterexample:
  "''push-up plank'' \<noteq> [] \<and> spec_normalize ''push-up plank'' \<noteq> ''pushup''
   \<and> spec_normalize ''push-up plank'' \<noteq> ''pushups'' \<and> isPushUp ''push-up plank''"
  by code_simp

section \<open>Evaluation of the scenarios' inputs\<close>

lemma trim_empty: "trim [] = []"
  by (simp add: trim_def)

lemma trim_20: "trim ''20'' = ''20''"
  by code_simp

lemma parseFloat_20: "parseFloat ''20'' = Fin 20"
  by (simp add: parseFloat_def trimStart_def scan_decimal_def scan_unsigned_def scan_exponent_def
      startsWith_def is_ws_def is_digit_def code_def dec_value_def digit_val_def fl64_numeral)

lemma parseInt_20: "parseInt ''20'' = Fin 20"
  by (simp add: parseInt_def trimStart_def startsWith_def is_ws_def code_def radix_digit_def
      radix_value_def fl64_numeral)

lemma isPushUp_Push_Ups: "isPushUp ''Push-Ups''"
  by code_simp

lemma trim_Push_Ups: "trim ''Push-Ups'' = ''Push-Ups''"
  by code_simp

lemma not_running_Push_Ups:
  "toLowerCase ''Push-Ups'' \<noteq> ''run'' \<and> toLowerCase ''Push-Ups'' \<noteq> ''running''"
  by code_simp

section \<open>Client-side validation\<close>

lemma trimStart_blank: "trim s = [] \<Longrightarrow> trimStart s = []"
  by (simp add: trim_Nil_iff trimStart_def dropWhile_eq_Nil_conv)

lemma parseFloat_blank: "trim s = [] \<Longrightarrow> parseFloat s = NaN"
  by (simp add: parseFloat_def trimStart_blank scan_decimal_def)

lemma not_NaN_not_le_zero: "(\<not> isNaN x \<and> \<not> le_zero x) = gt_zero x"
  by (cases x) (auto simp: isNaN_def)

text \<open>
  C7: a submission issues a request exactly when the workout type is non-empty after
  trimming and, in push-up mode, the reps field parses to a positive integer, and otherwise
  the duration field parses to a positive number; the request then carries \<open>request_body\<close>,
  and every other submission ends in a blocking notification with no request. The blank
  checks of the code are subsumed: a blank field parses to not-a-number. In particular a
  submission with an empty workout type issues no request.
\<close>

theorem handleSubmit_issues_request_iff:
  "(\<exists>body. handleSubmit f = Fetch body) = spec_may_submit f
   \<and> (handleSubmit f = Fetch (request_body f)) = spec_may_submit f
   \<and> (\<exists>msg. handleSubmit f = Alert msg) = (\<not> spec_may_submit f)"
proof -
  have r: "trim (reps_input f) = [] \<Longrightarrow> \<not> parses_positive_integer (reps_input f)"
    by (simp add: parses_positive_integer_def parseFloat_blank)
  have d: "trim (duration_input f) = [] \<Longrightarrow> \<not> parses_positive (duration_input f)"
    by (simp add: parses_positive_def parseFloat_blank)
  have pi: "parses_positive_integer (reps_input f) =
      (\<not> (isNaN (parseFloat (reps_input f)) \<or> le_zero (parseFloat (reps_input f))
          \<or> \<not> isInteger (parseFloat (reps_input f))))"
    using not_NaN_not_le_zero[of "parseFloat (reps_input f)"]
    by (auto simp: parses_positive_integer_def)
  have pd: "parses_positive (duration_input f) =
      (\<not> (isNaN (parseFloat (duration_input f)) \<or> le_zero (parseFloat (duration_input f))))"
    using not_NaN_not_le_zero[of "parseFloat (duration_input f)"]
    by (auto simp: parses_positive_def)
  show ?thesis
    using r d unfolding handleSubmit_def spec_may_submit_def Let_def pi pd
    by auto
qed

section \<open>The push-up submission\<close>

text \<open>
  C2: for the submission with workout type \<open>Push-Ups\<close> and reps \<open>20\<close>, push-up mode is active
  and the request body starts with \<open>workoutType: "Push-Ups"\<close> and \<open>reps: 20\<close>; whatever else the
  form holds, no \<open>duration\<close> key is sent, and with the weight field blank, as in the scenario,
  the body is exactly these two members.
\<close>

theorem pushups_submission_body:
  assumes "workoutType_input f = ''Push-Ups''" "reps_input f = ''20''"
  shows "isPushUp (workoutType_input f)
    \<and> (\<exists>extra. handleSubmit f =
          Fetch (JObj ([(''workoutType'', JStr ''Push-Ups''), (''reps'', JNum (Fin 20))] @ extra))
        \<and> ''duration'' \<notin> fst ` set extra
        \<and> (trim (weight_input f) = [] \<longrightarrow> extra = []))"
  using assms not_running_Push_Ups
  by (auto simp add: handleSubmit_def request_body_def Let_def isPushUp_Push_Ups trim_Push_Ups
      trim_20 parseFloat_20 parseInt_20 isNaN_def)

theorem pushups_submission_body_witness:
  "workoutType_input pushups_form = ''Push-Ups'' \<and> reps_input pushups_form = ''20''
   \<and> isPushUp (workoutType_input pushups_form)
   \<and> handleSubmit pushups_form =
       Fetch (JObj [(''workoutType'', JStr ''Push-Ups''), (''reps'', JNum (Fin 20))])"
  using pushups_submission_body[of pushups_form]
  by (auto simp: pushups_form_def trim_empty)

section \<open>Request validation in the gateway\<close>

text \<open>
  C1 at the request that the client sends for the push-up scenario: the body carries
  \<open>workoutType\<close> and a positive integer \<open>reps\<close> and no \<open>duration\<close>, and the gateway rejects it
  with status 400, whatever the credential and the completion service are.
\<close>

theorem gateway_rejects_reps_only:
  "handleSubmit pushups_form =
     Fetch (JObj [(''workoutType'', JStr ''Push-Ups''), (''reps'', JNum (Fin 20))])
   \<and> POST api_key openai (Some (JObj [(''workoutType'', JStr ''Push-Ups''), (''reps'', JNum (Fin 20))]))
       = Rejected Status_400 (Message ''Workout type and duration are required'') None"
  by (simp add: POST_def validate_input_def handleSubmit_def request_body_def Let_def pushups_form_def
      isPushUp_Push_Ups trim_Push_Ups trim_20 trim_empty parseFloat_20 parseInt_20 isNaN_def
      not_running_Push_Ups)

section \<open>The credential checks\<close>

lemma validate_yoga: "validate_input yoga_body = None"
  by (simp add: validate_input_def yoga_body_def isNaN_def)

lemma validate_not_Ok: "validate_input b = Some (Ok d) \<Longrightarrow> False"
  by (auto simp: validate_input_def Let_def split: if_splits option.splits)

lemma validate_input_cases:
  assumes "validate_input b = Some r"
  shows "r = Rejected Status_400 (Message ''Workout type and duration are required'') None
       \<or> r = Rejected Status_400 (Message ''Duration must be a positive number'') None
       \<or> (r = Rejected Status_500 Runtime_message None
          \<and> parseFloat_of (the (get_prop b ''duration'')) = None)"
  using assms by (auto simp: validate_input_def Let_def split: if_splits option.splits)

lemma POST_validation_first:
  "b \<noteq> JNull \<Longrightarrow> validate_input b = Some r \<Longrightarrow> POST key svc (Some b) = r"
  by (simp add: POST_def)

text \<open>
  C5, as the code has it. For a request that has passed validation, an absent credential
  (unset or empty) is rejected with status 500 and a credential that is present but does not
  start with \<open>sk-\<close> is rejected with status 400. The credential is looked at only after the
  validation: a request on which the validation answers gets that answer from the handler
  whatever the credential and the completion service are. That answer is one of the two
  validation errors, both with status 400, the status of the rejected prefix, from which
  they differ only in the message; or, when reading the duration raises a \<open>TypeError\<close>, the
  answer of the \<open>catch\<close> block with status 500.
\<close>

theorem credential_rejections:
  assumes "body \<noteq> JNull" "validate_input body = None"
  shows "(api_key = None \<or> api_key = Some [] \<longrightarrow>
            POST api_key openai (Some body) =
              Rejected Status_500
                (Message ''OpenAI API key is not configured. Please set OPENAI_API_KEY in your environment variables.'')
                None)
       \<and> (\<forall>k. api_key = Some k \<and> k \<noteq> [] \<and> \<not> startsWith k ''sk-'' \<longrightarrow>
            POST api_key openai (Some body) =
              Rejected Status_400
                (Message (''Invalid API key format. OpenAI API keys should start with ''
                          @ [CHR 0x22] @ ''sk-'' @ [CHR 0x22] @ ''.''))
                None)
       \<and> (\<forall>b key svc r. b \<noteq> JNull \<and> validate_input b = Some r \<longrightarrow>
            POST key svc (Some b) = r
            \<and> (r = Rejected Status_400 (Message ''Workout type and duration are required'') None
               \<or> r = Rejected Status_400 (Message ''Duration must be a positive number'') None
               \<or> (r = Rejected Status_500 Runtime_message None
                  \<and> parseFloat_of (the (get_prop b ''duration'')) = None)))"
proof -
  have "POST api_key openai (Some body) =
          Rejected Status_500
            (Message ''OpenAI API key is not configured. Please set OPENAI_API_KEY in your environment variables.'')
            None"
    if "api_key = None \<or> api_key = Some []"
    using assms that by (auto simp: POST_def check_api_key_def)
  moreover have "POST api_key openai (Some body) =
          Rejected Status_400
            (Message (''Invalid API key format. OpenAI API keys should start with ''
                      @ [CHR 0x22] @ ''sk-'' @ [CHR 0x22] @ ''.''))
            None"
    if "api_key = Some k \<and> k \<noteq> [] \<and> \<not> startsWith k ''sk-''" for k
    using assms that by (auto simp: POST_def check_api_key_def)
  ultimately show ?thesis
    using POST_validation_first validate_input_cases by blast
qed

lemma validate_empty_object:
  "validate_input (JObj []) =
     Some (Rejected Status_400 (Message ''Workout type and duration are required'') None)"
  by (simp add: validate_input_def)

lemma parseFloat_abc: "parseFloat ''abc'' = NaN"
  by (simp add: parseFloat_def trimStart_def is_ws_def code_def scan_decimal_def startsWith_def
      scan_unsigned_def is_digit_def)

lemma validate_text_duration:
  "validate_input (JObj [(''workoutType'', JStr ''Yoga''), (''duration'', JStr ''abc'')]) =
     Some (Rejected Status_400 (Message ''Duration must be a positive number'') None)"
  by (simp add: validate_input_def parseFloat_abc isNaN_def)

lemma validate_raising_duration:
  "validate_input (JObj [(''workoutType'', JStr ''Yoga''),
                         (''duration'', JObj [(''toString'', JNum (Fin 1))])]) =
     Some (Rejected Status_500 Runtime_message None)"
  by (simp add: validate_input_def)

theorem credential_rejections_witness:
  "yoga_body \<noteq> JNull \<and> validate_input yoga_body = None
   \<and> POST None silent_service (Some yoga_body) =
       Rejected Status_500
         (Message ''OpenAI API key is not configured. Please set OPENAI_API_KEY in your environment variables.'')
         None
   \<and> \<not> startsWith ''my-key'' ''sk-''
   \<and> POST (Some ''my-key'') silent_service (Some yoga_body) =
       Rejected Status_400
         (Message (''Invalid API key format. OpenAI API keys should start with ''
                   @ [CHR 0x22] @ ''sk-'' @ [CHR 0x22] @ ''.''))
         None
   \<and> JObj [] \<noteq> JNull
   \<and> validate_input (JObj []) =
       Some (Rejected Status_400 (Message ''Workout type and duration are required'') None)
   \<and> POST None silent_service (Some (JObj [])) =
       Rejected Status_400 (Message ''Workout type and duration are required'') None
   \<and> POST (Some ''my-key'') silent_service (Some (JObj [])) =
       Rejected Status_400 (Message ''Workout type and duration are required'') None
   \<and> POST (Some ''sk-test'') silent_service
        (Some (JObj [(''workoutType'', JStr ''Yoga''), (''duration'', JStr ''abc'')])) =
       Rejected Status_400 (Message ''Duration must be a positive number'') None
   \<and> POST None silent_service
        (Some (JObj [(''workoutType'', JStr ''Yoga''),
                     (''duration'', JObj [(''toString'', JNum (Fin 1))])])) =
       Rejected Status_500 Runtime_message None"
proof -
  have a: "yoga_body \<noteq> JNull" by (simp add: yoga_body_def)
  have b: "\<not> startsWith ''my-key'' ''sk-''" by (simp add: startsWith_def)
  note absent = credential_rejections[OF a validate_yoga, of None silent_service]
  note prefix = credential_rejections[OF a validate_yoga, of "Some ''my-key''" silent_service]
  from absent have 1: "POST None silent_service (Some yoga_body) =
       Rejected Status_500
         (Message ''OpenAI API key is not configured. Please set OPENAI_API_KEY in your environment variables.'')
         None" by simp
  from prefix b have 2: "POST (Some ''my-key'') silent_service (Some yoga_body) =
       Rejected Status_400
         (Message (''Invalid API key format. OpenAI API keys should start with ''
                   @ [CHR 0x22] @ ''sk-'' @ [CHR 0x22] @ ''.''))
         None" by simp
  from absent have v: "\<And>b key svc r. b \<noteq> JNull \<Longrightarrow> validate_input b = Some r \<Longrightarrow>
      POST key svc (Some b) = r" by blast
  have 3: "POST None silent_service (Some (JObj [])) =
       Rejected Status_400 (Message ''Workout type and duration are required'') None"
    by (rule v[OF _ validate_empty_object]) simp
  have 4: "POST (Some ''my-key'') silent_service (Some (JObj [])) =
       Rejected Status_400 (Message ''Workout type and duration are required'') None"
    by (rule v[OF _ validate_empty_object]) simp
  have 5: "POST (Some ''sk-test'') silent_service
        (Some (JObj [(''workoutType'', JStr ''Yoga''), (''duration'', JStr ''abc'')])) =
       Rejected Status_400 (Message ''Duration must be a positive number'') None"
    by (rule v[OF _ validate_text_duration]) simp
  have 6: "POST None silent_service
        (Some (JObj [(''workoutType'', JStr ''Yoga''),
                     (''duration'', JObj [(''toString'', JNum (Fin 1))])])) =
       Rejected Status_500 Runtime_message None"
    by (rule v[OF _ validate_raising_duration]) simp
  from a b validate_yoga validate_empty_object 1 2 3 4 5 6 show ?thesis by simp
qed

text \<open>
  C5 as stated fails: for a valid request and the credential \<open>my-key\<close>, which fails the prefix
  check, the handler answers with status 400, the status with which it answers a request
  that fails validation (here the empty object, sent with a well-formed credential).
\<close>

theorem bad_prefix_status_counterexample:
  "validate_input yoga_body = None \<and> \<not> startsWith ''my-key'' ''sk-''
   \<and> POST (Some ''my-key'') silent_service (Some yoga_body) =
       Rejected Status_400
         (Message (''Invalid API key format. OpenAI API keys should start with ''
                   @ [CHR 0x22] @ ''sk-'' @ [CHR 0x22] @ ''.''))
         None
   \<and> status_code (POST (Some ''my-key'') silent_service (Some yoga_body)) = 400
   \<and> POST (Some ''sk-test'') silent_service (Some (JObj [])) =
       Rejected Status_400 (Message ''Workout type and duration are required'') None
   \<and> status_code (POST (Some ''sk-test'') silent_service (Some (JObj []))) = 400"
proof -
  have a: "yoga_body \<noteq> JNull" by (simp add: yoga_body_def)
  have b: "\<not> startsWith ''my-key'' ''sk-''" by (simp add: startsWith_def)
  have 1: "POST (Some ''my-key'') silent_service (Some yoga_body) =
       Rejected Status_400
         (Message (''Invalid API key format. OpenAI API keys should start with ''
                   @ [CHR 0x22] @ ''sk-'' @ [CHR 0x22] @ ''.''))
         None"
    using a b by (simp add: POST_def validate_yoga check_api_key_def)
  have 2: "POST (Some ''sk-test'') silent_service (Some (JObj [])) =
       Rejected Status_400 (Message ''Workout type and duration are required'') None"
    by (simp add: POST_def validate_empty_object)
  show ?thesis unfolding 1 2 using b validate_yoga by simp
qed

section \<open>Deleting a history entry\<close>

lemma filter_other_ids:
  assumes "e \<in> set h" "get_prop e ''id'' = Some (JStr i)" "distinct (map (\<lambda>w. get_prop w ''id'') h)"
  shows "filter (\<lambda>workout. get_prop workout ''id'' \<noteq> Some (JStr i)) h = remove1 e h"
  using assms
proof (induction h)
  case Nil
  then show ?case by simp
next
  case (Cons w h)
  show ?case
  proof (cases "w = e")
    case True
    with Cons.prems have "\<forall>x\<in>set h. get_prop x ''id'' \<noteq> Some (JStr i)"
      by (auto simp: image_iff)
    then have "filter (\<lambda>workout. get_prop workout ''id'' \<noteq> Some (JStr i)) h = h"
      by (simp add: filter_id_conv)
    with True Cons.prems show ?thesis by simp
  next
    case False
    with Cons.prems have e: "e \<in> set h" by simp
    with Cons.prems have "get_prop w ''id'' \<noteq> Some (JStr i)"
      by (auto simp: image_iff)
    with False e Cons show ?thesis by simp
  qed
qed

text \<open>
  C9: in a history whose entries have distinct ids, deleting an entry after the confirmation
  removes the persisted record altogether when it was the only entry, and rewrites the
  record with the remaining entries when there were more; the effect that saves the history
  afterwards does not bring an empty record back. A declined confirmation changes nothing.
\<close>

theorem deleteWorkout_persisted:
  assumes "e \<in> set h" "get_prop e ''id'' = Some (JStr i)"
    and "distinct (map (\<lambda>w. get_prop w ''id'') h)"
  shows "(h = [e] \<longrightarrow>
            save_effect (deleteWorkout True i (h, st)) = ([], st(history_key := None)))
       \<and> (1 < length h \<longrightarrow>
            remove1 e h \<noteq> [] \<and>
            save_effect (deleteWorkout True i (h, st))
              = (remove1 e h, st(history_key \<mapsto> JArr (remove1 e h))))
       \<and> save_effect (deleteWorkout False i (h, st)) = save_effect (h, st)"
proof -
  have f: "filter (\<lambda>workout. get_prop workout ''id'' \<noteq> Some (JStr i)) h = remove1 e h"
    by (rule filter_other_ids[OF assms])
  have n: "1 < length h \<Longrightarrow> remove1 e h \<noteq> []"
    using assms(1) by (cases h) (auto simp: length_remove1 split: if_splits)
  show ?thesis
    using n assms(2) by (auto simp: deleteWorkout_def save_effect_def f Let_def)
qed

theorem deleteWorkout_persisted_witness:
  "snd (save_effect (deleteWorkout True ''1700000000000''
          ([entry_a], [history_key \<mapsto> JArr [entry_a]]))) history_key = None
   \<and> save_effect (deleteWorkout True ''1700000000000''
          ([entry_a, entry_b], [history_key \<mapsto> JArr [entry_a, entry_b]]))
       = ([entry_b], [history_key \<mapsto> JArr [entry_b]])"
proof -
  have i: "get_prop entry_a ''id'' = Some (JStr ''1700000000000'')"
    by (simp add: entry_a_def)
  have d1: "distinct (map (\<lambda>w. get_prop w ''id'') [entry_a])" by simp
  have d2: "distinct (map (\<lambda>w. get_prop w ''id'') [entry_a, entry_b])"
    by (simp add: entry_a_def entry_b_def)
  have ne: "entry_a \<noteq> entry_b" by (simp add: entry_a_def entry_b_def)
  from deleteWorkout_persisted[OF _ i d1, of "[history_key \<mapsto> JArr [entry_a]]"]
       deleteWorkout_persisted[OF _ i d2, of "[history_key \<mapsto> JArr [entry_a, entry_b]]"] ne
  show ?thesis by simp
qed

section \<open>Reading the reply of the completion service\<close>

lemma POST_reaches_service:
  assumes "body \<noteq> JNull" "validate_input body = None" "check_api_key api_key = None"
    "the_prompt body = Some prompt"
  shows "POST api_key openai (Some body) =
     call_service openai prompt (the (get_prop body ''workoutType''))
       (the (parseFloat_of (the (get_prop body ''duration''))))"
  using assms by (simp add: POST_def)

lemma parseInt_480: "parseInt ''480'' = Fin 480"
  by (simp add: parseInt_def trimStart_def startsWith_def is_ws_def code_def radix_digit_def
      radix_value_def fl64_numeral)

lemma parseInt_12: "parseInt ''12'' = Fin 12"
  by (simp add: parseInt_def trimStart_def startsWith_def is_ws_def code_def radix_digit_def
      radix_value_def fl64_numeral)

lemma floor_plus_half: "\<lfloor>(of_int n :: rat) + 1 / 2\<rfloor> = n"
  by (intro floor_unique) auto

lemma Math_round_numeral: "Math_round (Fin (numeral k)) = Fin (numeral k)"
  using floor_plus_half[of "numeral k"] by simp

lemma finish_fallback_480:
  assumes "content \<noteq> []"
  shows "finish (JObj [(''calories'', JNum (Fin 480)), (''explanation'', JStr content)]) wt d =
    Ok (JObj [(''calories'', JNum (Fin 480)), (''explanation'', JStr content),
              (''workoutType'', wt), (''duration'', json_of_num d)])"
  using assms by (simp add: finish_def isNaN_def Math_round_numeral del: Math_round.simps)

text \<open>
  C6, as the code has it: when the request and the credential are accepted, the prompt is
  built, and the service returns a text that \<open>JSON.parse\<close> rejects and whose first run of
  decimal digits is \<open>480\<close>, the gateway answers with calories 480 and the raw text as the
  explanation.
\<close>

theorem fallback_first_digit_run:
  assumes "body \<noteq> JNull" "validate_input body = None" "check_api_key api_key = None"
    and "the_prompt body = Some prompt"
    and "openai prompt = Completion (Some content)"
    and "JSON_parse content = None"
    and "takeWhile is_digit (dropWhile (\<lambda>c. \<not> is_digit c) content) = ''480''"
  shows "POST api_key openai (Some body) =
     Ok (JObj [(''calories'', JNum (Fin 480)), (''explanation'', JStr content),
               (''workoutType'', the (get_prop body ''workoutType'')),
               (''duration'', json_of_num (the (parseFloat_of (the (get_prop body ''duration'')))))])"
proof -
  from assms(7) have ne: "content \<noteq> []" by auto
  have "read_reply (Some content) (the (get_prop body ''workoutType''))
          (the (parseFloat_of (the (get_prop body ''duration'')))) =
        finish (JObj [(''calories'', JNum (Fin 480)), (''explanation'', JStr content)])
          (the (get_prop body ''workoutType'')) (the (parseFloat_of (the (get_prop body ''duration''))))"
    using ne assms(6,7) by (simp add: read_reply_def digits_match_def parseInt_480)
  then show ?thesis
    using ne assms(5)
    by (simp add: POST_reaches_service[OF assms(1-4)] call_service_def finish_fallback_480)
qed

lemma lower_Yoga: "toLowerCase ''Yoga'' \<noteq> ''run'' \<and> toLowerCase ''Yoga'' \<noteq> ''running''"
  by code_simp

lemma prompt_yoga: "the_prompt yoga_body = Some (build_prompt ''Yoga'' (Fin 30) None [] [] [])"
  using lower_Yoga by (simp add: the_prompt_def yoga_body_def weight_texts_def)

lemma yoga_fields:
  "the (get_prop yoga_body ''workoutType'') = JStr ''Yoga''"
  "the (parseFloat_of (the (get_prop yoga_body ''duration''))) = Fin 30"
  by (simp_all add: yoga_body_def)

lemma key_ok: "check_api_key (Some ''sk-test'') = None"
  by (simp add: check_api_key_def startsWith_def)

lemmas lex_eval = JSON_parse_def json_ws_def code_def startsWith_def number_char_def is_digit_def
  json_number_def json_number_ok_def json_exponent_ok_def scan_decimal_def scan_unsigned_def
  scan_exponent_def dec_value_def digit_val_def fl64_numeral escape_char_def step_def
  begin_value_def read_key_def after_value_def

lemma parse_fail_a: "JSON_parse ''About 480 kcal'' = None"
  by (simp add: lex_eval)

lemma parse_fail_b: "JSON_parse ''12 reps burn 480 kcal'' = None"
  by (simp add: lex_eval)

lemma digits_a: "takeWhile is_digit (dropWhile (\<lambda>c. \<not> is_digit c) ''About 480 kcal'') = ''480''"
  by (simp add: is_digit_def code_def)

lemma digits_b: "digits_match ''12 reps burn 480 kcal'' = Some ''12''"
  by (simp add: digits_match_def is_digit_def code_def)

theorem fallback_first_digit_run_witness:
  "yoga_body \<noteq> JNull \<and> validate_input yoga_body = None \<and> check_api_key (Some ''sk-test'') = None
   \<and> JSON_parse ''About 480 kcal'' = None
   \<and> takeWhile is_digit (dropWhile (\<lambda>c. \<not> is_digit c) ''About 480 kcal'') = ''480''
   \<and> POST (Some ''sk-test'') (replying ''About 480 kcal'') (Some yoga_body) =
       Ok (JObj [(''calories'', JNum (Fin 480)), (''explanation'', JStr ''About 480 kcal''),
                 (''workoutType'', JStr ''Yoga''), (''duration'', JNum (Fin 30))])"
proof -
  have a: "yoga_body \<noteq> JNull" by (simp add: yoga_body_def)
  have s: "(replying ''About 480 kcal'') (build_prompt ''Yoga'' (Fin 30) None [] [] [])
             = Completion (Some ''About 480 kcal'')" by simp
  from fallback_first_digit_run[where openai = "replying ''About 480 kcal''",
      OF a validate_yoga key_ok prompt_yoga s parse_fail_a digits_a]
  show ?thesis using a validate_yoga key_ok parse_fail_a digits_a
    by (simp add: yoga_fields)
qed

text \<open>
  C6 as stated fails: the reply \<open>12 reps burn 480 kcal\<close> is not JSON and contains the digits
  \<open>480\<close>, and the gateway answers with calories 12, the first run of digits.
\<close>

theorem fallback_contains_480_counterexample:
  "JSON_parse ''12 reps burn 480 kcal'' = None
   \<and> ''12 reps burn 480 kcal'' = ''12 reps burn '' @ ''480'' @ '' kcal''
   \<and> POST (Some ''sk-test'') (replying ''12 reps burn 480 kcal'') (Some yoga_body) =
       Ok (JObj [(''calories'', JNum (Fin 12)), (''explanation'', JStr ''12 reps burn 480 kcal''),
                 (''workoutType'', JStr ''Yoga''), (''duration'', JNum (Fin 30))])"
proof -
  have a: "yoga_body \<noteq> JNull" by (simp add: yoga_body_def)
  have "POST (Some ''sk-test'') (replying ''12 reps burn 480 kcal'') (Some yoga_body) =
       Ok (JObj [(''calories'', JNum (Fin 12)), (''explanation'', JStr ''12 reps burn 480 kcal''),
                 (''workoutType'', JStr ''Yoga''), (''duration'', JNum (Fin 30))])"
    unfolding POST_reaches_service[OF a validate_yoga key_ok prompt_yoga] yoga_fields
    by (simp add: call_service_def read_reply_def parse_fail_b digits_b parseInt_12 finish_def
        isNaN_def Math_round_numeral del: Math_round.simps)
  with parse_fail_b show ?thesis by simp
qed


lemma JSON_parse_empty: "JSON_parse [] = None"
  by (simp add: JSON_parse_def)

lemma finish_zero:
  "get_prop result ''calories'' = Some (JNum (Fin 0)) \<Longrightarrow>
   finish result wt d = Rejected Status_500 (Message ''Invalid calorie calculation from OpenAI'') None"
  by (auto simp: finish_def)

lemma finish_Ok:
  assumes "finish result wt d = Ok data"
  shows "truthy (get_prop result ''calories'')
     \<and> (\<exists>n x. ToNumber (the (get_prop result ''calories'')) = Some n \<and> \<not> isNaN n
          \<and> data = JObj [(''calories'', json_of_num (Math_round n)),
                         (''explanation'', x), (''workoutType'', wt), (''duration'', json_of_num d)])"
  using assms by (auto simp: finish_def Let_def split: if_splits option.splits)

text \<open>
  C10, as the code has it: when the reply parses as JSON and its \<open>calories\<close> is the number 0,
  the gateway rejects it as an invalid calorie calculation (status 500); and whenever the
  gateway answers a parsed reply with success, the reply's \<open>calories\<close> is truthy, it converts
  to a number that is not \<open>NaN\<close>, and the returned figure is \<open>Math.round\<close> of that number,
  which can be 0.
\<close>

theorem zero_calories_rejected:
  assumes "body \<noteq> JNull" "validate_input body = None" "check_api_key api_key = None"
    and "the_prompt body = Some prompt"
    and "openai prompt = Completion (Some content)"
    and "JSON_parse content = Some result"
  shows "(get_prop result ''calories'' = Some (JNum (Fin 0)) \<longrightarrow>
            POST api_key openai (Some body) =
              Rejected Status_500 (Message ''Invalid calorie calculation from OpenAI'') None)
       \<and> (\<forall>data. POST api_key openai (Some body) = Ok data \<longrightarrow>
            truthy (get_prop result ''calories'')
            \<and> (\<exists>n. ToNumber (the (get_prop result ''calories'')) = Some n \<and> \<not> isNaN n
                 \<and> get_prop data ''calories'' = Some (json_of_num (Math_round n))))"
proof -
  from assms(6) have ne: "content \<noteq> []" using JSON_parse_empty by auto
  have p: "POST api_key openai (Some body) =
      finish result (the (get_prop body ''workoutType'')) (the (parseFloat_of (the (get_prop body ''duration''))))"
    using ne assms(5,6)
    by (simp add: POST_reaches_service[OF assms(1-4)] call_service_def read_reply_def)
  show ?thesis
    unfolding p using finish_zero[of result] by (auto dest!: finish_Ok)
qed

lemma fl64_two_fifths: "fl64 (2 / 5) = Fin (3602879701896397 / 9007199254740992)"
  using fl64_near[of "2 / 5" "-2" 7205759403792794] by simp

lemma parse_zero: \<open>JSON_parse ''{"calories": 0, "explanation": "rest day"}'' =
   Some (JObj [(''calories'', JNum (Fin 0)), (''explanation'', JStr ''rest day'')])\<close>
  by (simp add: lex_eval fl64_def)

lemma parse_two_fifths: \<open>JSON_parse ''{"calories": 0.4}'' =
   Some (JObj [(''calories'', JNum (Fin (3602879701896397 / 9007199254740992)))])\<close>
  by (simp add: lex_eval fl64_two_fifths)

theorem zero_calories_rejected_witness:
  \<open>yoga_body \<noteq> JNull \<and> validate_input yoga_body = None \<and> check_api_key (Some ''sk-test'') = None
   \<and> JSON_parse ''{"calories": 0, "explanation": "rest day"}'' =
       Some (JObj [(''calories'', JNum (Fin 0)), (''explanation'', JStr ''rest day'')])
   \<and> POST (Some ''sk-test'') (replying ''{"calories": 0, "explanation": "rest day"}'')
        (Some yoga_body) =
       Rejected Status_500 (Message ''Invalid calorie calculation from OpenAI'') None\<close>
proof -
  have a: "yoga_body \<noteq> JNull" by (simp add: yoga_body_def)
  have s: \<open>(replying ''{"calories": 0, "explanation": "rest day"}'')
             (build_prompt ''Yoga'' (Fin 30) None [] [] [])
           = Completion (Some ''{"calories": 0, "explanation": "rest day"}'')\<close> by simp
  from zero_calories_rejected[where openai = \<open>replying ''{"calories": 0, "explanation": "rest day"}''\<close>,
      OF a validate_yoga key_ok prompt_yoga s parse_zero]
  show ?thesis using a validate_yoga key_ok parse_zero by simp
qed

text \<open>
  C10 as stated fails in its second half: the reply \<open>{"calories": 0.4}\<close> parses as JSON, its
  \<open>calories\<close> is truthy and a number, and the gateway answers with success and calories 0.
\<close>

theorem success_with_zero_calories_counterexample:
  \<open>JSON_parse ''{"calories": 0.4}'' =
       Some (JObj [(''calories'', JNum (Fin (3602879701896397 / 9007199254740992)))])
   \<and> POST (Some ''sk-test'') (replying ''{"calories": 0.4}'') (Some yoga_body) =
       Ok (JObj [(''calories'', JNum (Fin 0)),
                 (''explanation'', JStr ''Calories calculated based on workout type and duration.''),
                 (''workoutType'', JStr ''Yoga''), (''duration'', JNum (Fin 30))])\<close>
proof -
  have a: "yoga_body \<noteq> JNull" by (simp add: yoga_body_def)
  have "\<lfloor>(3602879701896397 / 9007199254740992 :: rat) + 1 / 2\<rfloor> = 0"
    by (intro floor_unique) auto
  then have f: "Math_round (Fin (3602879701896397 / 9007199254740992)) = Fin 0"
    by (simp only: Math_round.simps of_int_0)
  have \<open>POST (Some ''sk-test'') (replying ''{"calories": 0.4}'') (Some yoga_body) =
       Ok (JObj [(''calories'', JNum (Fin 0)),
                 (''explanation'', JStr ''Calories calculated based on workout type and duration.''),
                 (''workoutType'', JStr ''Yoga''), (''duration'', JNum (Fin 30))])\<close>
    unfolding POST_reaches_service[OF a validate_yoga key_ok prompt_yoga] yoga_fields
    by (simp add: call_service_def read_reply_def parse_two_fifths finish_def isNaN_def f
        del: Math_round.simps)
  with parse_two_fifths show ?thesis by simp
qed

section \<open>History entries created from gateway responses\<close>

lemma spec_normalize_trim: "spec_normalize (trim w) = spec_normalize w"
proof -
  have "spec_normalize x = strip_hyphens (map lower_char (filter (\<lambda>c. \<not> is_ws c) x))" for x
    by (simp add: spec_normalize_def strip_hyphens_def toLowerCase_def filter_map comp_def conj_commute)
  then show ?thesis by (simp add: filter_trim)
qed

lemma isPushUp_trim: "isPushUp (trim w) = isPushUp w"
  by (simp add: isPushUp_normal_form spec_normalize_trim)

lemma read_reply_Ok:
  assumes "read_reply content wt d = Ok data"
  shows "\<exists>x y. data = JObj [(''calories'', x), (''explanation'', y), (''workoutType'', wt),
                             (''duration'', json_of_num d)]"
  using assms
  by (auto simp: read_reply_def split: option.splits if_splits dest!: finish_Ok)

lemma call_service_Ok:
  assumes "call_service openai prompt wt d = Ok data"
  shows "\<exists>x y. data = JObj [(''calories'', x), (''explanation'', y), (''workoutType'', wt),
                             (''duration'', json_of_num d)]"
  using assms
  by (auto simp: call_service_def split: service_outcome.splits dest: read_reply_Ok)

lemma the_prompt_Some: "the_prompt body = Some p \<Longrightarrow> \<exists>wt. get_prop body ''workoutType'' = Some (JStr wt)"
  by (auto simp: the_prompt_def split: option.splits json.splits)

lemma validate_input_None:
  "validate_input body = None \<Longrightarrow>
     truthy (get_prop body ''duration'')
     \<and> parseFloat_of (the (get_prop body ''duration'')) \<noteq> None
     \<and> gt_zero (the (parseFloat_of (the (get_prop body ''duration''))))"
  using not_NaN_not_le_zero[of "the (parseFloat_of (the (get_prop body ''duration'')))"]
  by (auto simp: validate_input_def Let_def split: if_splits option.splits)

lemma POST_Ok:
  assumes "POST api_key openai (Some body) = Ok data"
  shows "\<exists>wt x y. get_prop body ''workoutType'' = Some (JStr wt)
     \<and> truthy (get_prop body ''duration'')
     \<and> gt_zero (the (parseFloat_of (the (get_prop body ''duration''))))
     \<and> data = JObj [(''calories'', x), (''explanation'', y), (''workoutType'', JStr wt),
                    (''duration'', json_of_num (the (parseFloat_of (the (get_prop body ''duration'')))))]"
proof -
  from assms have v: "validate_input body = None"
    by (auto simp: POST_def split: if_splits option.splits dest: validate_not_Ok)
  from assms v obtain p where p: "the_prompt body = Some p"
    and c: "call_service openai p (the (get_prop body ''workoutType''))
              (the (parseFloat_of (the (get_prop body ''duration'')))) = Ok data"
    by (auto simp: POST_def check_api_key_def split: if_splits option.splits)
  from the_prompt_Some[OF p] obtain wt where wt: "get_prop body ''workoutType'' = Some (JStr wt)" ..
  from call_service_Ok[OF c] validate_input_None[OF v] wt show ?thesis by auto
qed

lemma request_body_fields:
  "get_prop (request_body f) ''workoutType'' = Some (JStr (trim (workoutType_input f)))"
  "get_prop (request_body f) ''duration'' =
     (if isPushUp (workoutType_input f) then None
      else Some (json_of_num (parseFloat (duration_input f))))"
  by (simp_all add: request_body_def Let_def)

lemma handleSubmit_Fetch: "handleSubmit f = Fetch body \<Longrightarrow> body = request_body f"
  by (auto simp: handleSubmit_def Let_def split: if_splits)

lemma truthy_json_of_num: "truthy (Some (json_of_num x)) \<Longrightarrow> \<exists>r. x = Fin r"
  by (cases x) auto

lemma recorded_entry:
  assumes "submit_and_record api_key openai now stamp f h \<noteq> h"
  shows "\<exists>e. submit_and_record api_key openai now stamp f h = e # h
     \<and> get_prop e ''workoutType'' = Some (JStr (trim (workoutType_input f)))
     \<and> \<not> isPushUp (workoutType_input f)
     \<and> populated e ''duration'' \<and> \<not> populated e ''reps''"
proof -
  from assms obtain body where b: "handleSubmit f = Fetch body"
    by (cases "handleSubmit f") (auto simp: submit_and_record_def)
  then have body: "body = request_body f" by (rule handleSubmit_Fetch)
  from assms b obtain data where d: "POST api_key openai (Some body) = Ok data"
    by (cases "POST api_key openai (Some body)") (auto simp: submit_and_record_def)
  from POST_Ok[OF d] obtain wt x y where
    wt: "get_prop body ''workoutType'' = Some (JStr wt)"
    and t: "truthy (get_prop body ''duration'')"
    and data: "data = JObj [(''calories'', x), (''explanation'', y), (''workoutType'', JStr wt),
                    (''duration'', json_of_num (the (parseFloat_of (the (get_prop body ''duration'')))))]"
    by blast
  from t have np: "\<not> isPushUp (workoutType_input f)"
    by (auto simp: body request_body_fields split: if_splits)
  with t obtain r where r: "parseFloat (duration_input f) = Fin r"
    by (auto simp: body request_body_fields dest: truthy_json_of_num)
  from wt have wt': "wt = trim (workoutType_input f)" by (simp add: body request_body_fields)
  have dur: "json_of_num (the (parseFloat_of (the (get_prop body ''duration'')))) = JNum (Fin r)"
    using np r by (simp add: body request_body_fields)
  have "submit_and_record api_key openai now stamp f h = addToHistory now stamp data h"
    using b d by (simp add: submit_and_record_def)
  then show ?thesis
    using np by (simp add: addToHistory_def data dur wt' populated_def)
qed

text \<open>
  C3: whenever a submission adds an entry to the history (the request was sent and the
  gateway answered with success), the entry has exactly one of \<open>duration\<close> and \<open>reps\<close>
  populated: \<open>reps\<close> exactly when its workout type is a push-up label, \<open>duration\<close> otherwise.
  By \<open>recorded_entry\<close> the entry in fact always has \<open>duration\<close> and a workout type that is
  not a push-up label: the gateway answers no push-up submission with success.
\<close>

theorem entry_duration_xor_reps:
  assumes "submit_and_record api_key openai now stamp f h \<noteq> h"
  shows "\<exists>e w. submit_and_record api_key openai now stamp f h = e # h
     \<and> get_prop e ''workoutType'' = Some (JStr w)
     \<and> populated e ''reps'' = isPushUp w
     \<and> populated e ''duration'' = (\<not> isPushUp w)"
  using recorded_entry[OF assms] by (auto simp: isPushUp_trim)


lemma parseFloat_30: "parseFloat ''30'' = Fin 30"
  by (simp add: parseFloat_def trimStart_def scan_decimal_def scan_unsigned_def scan_exponent_def
      startsWith_def is_ws_def is_digit_def code_def dec_value_def digit_val_def fl64_numeral)

lemma trim_30: "trim ''30'' = ''30''"
  by code_simp

lemma trim_Yoga: "trim ''Yoga'' = ''Yoga''"
  by code_simp

lemma not_isPushUp_Yoga: "\<not> isPushUp ''Yoga''"
  by code_simp

lemma handleSubmit_yoga: "handleSubmit yoga_form = Fetch yoga_body"
  using lower_Yoga
  by (simp add: handleSubmit_def request_body_def yoga_form_def yoga_body_def Let_def trim_Yoga
      trim_30 trim_empty not_isPushUp_Yoga parseFloat_30 isNaN_def)

lemma parse_light: \<open>JSON_parse ''{"calories": 120, "explanation": "Light effort."}'' =
   Some (JObj [(''calories'', JNum (Fin 120)), (''explanation'', JStr ''Light effort.'')])\<close>
  by (simp add: lex_eval)

lemma POST_yoga:
  \<open>POST (Some ''sk-test'')
     (replying ''{"calories": 120, "explanation": "Light effort."}'') (Some yoga_body) =
   Ok (JObj [(''calories'', JNum (Fin 120)), (''explanation'', JStr ''Light effort.''),
             (''workoutType'', JStr ''Yoga''), (''duration'', JNum (Fin 30))])\<close>
proof -
  have a: "yoga_body \<noteq> JNull" by (simp add: yoga_body_def)
  show ?thesis
    unfolding POST_reaches_service[OF a validate_yoga key_ok prompt_yoga] yoga_fields
    by (simp add: call_service_def read_reply_def parse_light finish_def isNaN_def
        Math_round_numeral del: Math_round.simps)
qed

theorem entry_duration_xor_reps_witness:
  \<open>submit_and_record (Some ''sk-test'')
      (replying ''{"calories": 120, "explanation": "Light effort."}'')
      1700000000000 ''2023-11-14T22:13:20.000Z'' yoga_form [] \<noteq> []
   \<and> (\<exists>e. submit_and_record (Some ''sk-test'')
          (replying ''{"calories": 120, "explanation": "Light effort."}'')
          1700000000000 ''2023-11-14T22:13:20.000Z'' yoga_form [] = [e]
        \<and> get_prop e ''workoutType'' = Some (JStr ''Yoga'') \<and> \<not> isPushUp ''Yoga''
        \<and> \<not> populated e ''reps'' \<and> populated e ''duration'')\<close>
proof -
  have n: \<open>submit_and_record (Some ''sk-test'')
      (replying ''{"calories": 120, "explanation": "Light effort."}'')
      1700000000000 ''2023-11-14T22:13:20.000Z'' yoga_form [] \<noteq> []\<close>
    by (simp add: submit_and_record_def handleSubmit_yoga POST_yoga addToHistory_def)
  from entry_duration_xor_reps[OF n] obtain e w where
    e: \<open>submit_and_record (Some ''sk-test'')
      (replying ''{"calories": 120, "explanation": "Light effort."}'')
      1700000000000 ''2023-11-14T22:13:20.000Z'' yoga_form [] = [e]\<close>
    and w: "get_prop e ''workoutType'' = Some (JStr w)"
    and p: "populated e ''reps'' = isPushUp w" "populated e ''duration'' = (\<not> isPushUp w)"
    by blast
  from e have "e = JObj [(''id'', JStr (show_nat 1700000000000)), (''calories'', JNum (Fin 120)),
      (''explanation'', JStr ''Light effort.''), (''workoutType'', JStr ''Yoga''),
      (''duration'', JNum (Fin 30)), (''timestamp'', JStr ''2023-11-14T22:13:20.000Z'')]"
    by (simp add: submit_and_record_def handleSubmit_yoga POST_yoga addToHistory_def)
  with w have "w = ''Yoga''" by simp
  with n e w p not_isPushUp_Yoga show ?thesis by simp
qed

section \<open>The weight in the prompt\<close>

lemma pow2_shift53: "(2::rat) powi (e - 52) * 2 ^ 53 = 2 powi (e + 1)"
  using power_int_add[of "2::rat" "e - 52" 53] by (simp add: add.commute)

lemma pow2_shift52: "(2::rat) powi (e - 52) * 2 ^ 52 = 2 powi e"
  using power_int_add[of "2::rat" "e - 52" 52] by simp

lemma round_half_even_le:
  assumes "m < of_int k"
  shows "round_half_even m \<le> k"
proof -
  from assms have "\<lfloor>m\<rfloor> < k" by (simp only: floor_less_iff)
  then show ?thesis by (auto simp: round_half_even_def Let_def)
qed

lemma round_half_even_error: "\<bar>of_int (round_half_even m) - m\<bar> \<le> 1 / 2"
proof -
  have "of_int \<lfloor>m\<rfloor> \<le> m" "m < of_int \<lfloor>m\<rfloor> + 1" by linarith+
  then show ?thesis by (auto simp: round_half_even_def Let_def abs_le_iff)
qed

lemma fl64_finite_error:
  assumes "2 powi (- 1022) \<le> x" "x < 2 powi 1023"
  shows "\<exists>r. fl64 x = Fin r \<and> \<bar>r - x\<bar> \<le> x / 2 ^ 53"
proof -
  have "(0::rat) < 2 powi (- 1022)" by (rule zero_less_power_int) simp
  then have pos: "0 < x" using assms(1) by (rule less_le_trans)
  define e where "e = ilog2 x"
  from ilog2_bounds[OF pos] have lo: "2 powi e \<le> x" and hi: "x < 2 powi (e + 1)"
    by (auto simp: e_def)
  from assms(1) hi have "(2::rat) powi (- 1022) < 2 powi (e + 1)" by (rule le_less_trans)
  then have "- 1022 < e + 1" by (simp only: pow2_less_iff)
  then have e1: "- 1022 \<le> e" by simp
  from lo assms(2) have "(2::rat) powi e < 2 powi 1023" by (rule le_less_trans)
  then have e2: "e < 1023" by (simp only: pow2_less_iff)
  define u :: rat where "u = 2 powi (e - 52)"
  have upos: "0 < u" unfolding u_def by (rule zero_less_power_int) simp
  define n where "n = round_half_even (x / u)"
  have err: "\<bar>of_int n - x / u\<bar> \<le> 1 / 2" unfolding n_def by (rule round_half_even_error)
  have u53: "u * 2 ^ 53 = 2 powi (e + 1)" unfolding u_def by (rule pow2_shift53)
  have u52: "u * 2 ^ 52 = 2 powi e" unfolding u_def by (rule pow2_shift52)
  from hi have "x < u * 2 ^ 53" by (simp only: u53)
  then have "x / u < 2 ^ 53" using upos by (simp only: pos_divide_less_eq mult.commute)
  then have "x / u < of_int (2 ^ 53)" by simp
  then have nle: "n \<le> 2 ^ 53" unfolding n_def by (rule round_half_even_le)
  then have "(of_int n :: rat) \<le> of_int (2 ^ 53)" by (simp only: of_int_le_iff)
  then have "(of_int n :: rat) \<le> 2 ^ 53" by simp
  then have "of_int n * u \<le> 2 ^ 53 * u" using upos by (intro mult_right_mono) auto
  also have "\<dots> = 2 powi (e + 1)" using u53 by (simp only: mult.commute)
  also have "\<dots> \<le> 2 powi 1023" using e2 by (intro power_int_increasing) auto
  also have "\<dots> < 2 powi 1024" by (simp only: pow2_less_iff)
  finally have fin: "of_int n * 2 powi (e - 52) < (2::rat) powi 1024" unfolding u_def .
  have il: "ilog2 x = e" by (simp only: e_def)
  have rn: "round_half_even (x / 2 powi (e - 52)) = n" by (simp only: n_def u_def)
  have r: "fl64 x = Fin (of_int n * u)"
    unfolding u_def by (rule fl64_pos_unfold[OF pos il e1 rn fin])
  have "of_int n * u - x = (of_int n - x / u) * u" using upos by (simp add: field_simps)
  then have "\<bar>of_int n * u - x\<bar> = \<bar>of_int n - x / u\<bar> * u"
    using upos by (simp only: abs_mult abs_of_pos)
  also have "\<dots> \<le> 1 / 2 * u" using err upos by (intro mult_right_mono) auto
  also have "\<dots> = u * 2 ^ 52 / 2 ^ 53" by simp
  also have "\<dots> = 2 powi e / 2 ^ 53" by (simp only: u52)
  also have "\<dots> \<le> x / 2 ^ 53" using lo by (intro divide_right_mono) auto
  finally show ?thesis using r by blast
qed

lemma lbs_to_kg_value: "lbs_to_kg = Fin (1021398381089119 / 2251799813685248)"
  unfolding lbs_to_kg_def
  using fl64_near[of "453592 / 1000000" "-2" 8171187048712952] by simp

lemma kg_6250: "num_mul (Fin 6250) lbs_to_kg = Fin (3117060489163571 / 1099511627776)"
  unfolding lbs_to_kg_value
  using fl64_near[of "6250 * (1021398381089119 / 2251799813685248)" 11 6234120978327142] by simp

lemma kg_18750: "num_mul (Fin 18750) lbs_to_kg = Fin (4675590733745357 / 549755813888)"
  unfolding lbs_to_kg_value
  using fl64_near[of "18750 * (1021398381089119 / 2251799813685248)" 13 4675590733745357] by simp

lemma digit_chars:
  "char_of (48::nat) = CHR ''0''" "char_of (49::nat) = CHR ''1''" "char_of (50::nat) = CHR ''2''"
  "char_of (51::nat) = CHR ''3''" "char_of (52::nat) = CHR ''4''" "char_of (53::nat) = CHR ''5''"
  "char_of (54::nat) = CHR ''6''" "char_of (55::nat) = CHR ''7''" "char_of (56::nat) = CHR ''8''"
  "char_of (57::nat) = CHR ''9''"
  by code_simp+

lemma tenths_6250: "tenths (3117060489163571 / 1099511627776) = 28349"
proof -
  have "\<lfloor>\<bar>3117060489163571 / 1099511627776 :: rat\<bar> * 10 + 1 / 2\<rfloor> = 28349"
    by (intro floor_unique) simp_all
  then show ?thesis by (simp only: tenths_def)
qed

lemma tenths_18750: "tenths (4675590733745357 / 549755813888) = 85049"
proof -
  have "\<lfloor>\<bar>4675590733745357 / 549755813888 :: rat\<bar> * 10 + 1 / 2\<rfloor> = 85049"
    by (intro floor_unique) simp_all
  then show ?thesis by (simp only: tenths_def)
qed

lemma fixed_6250: "fixed1 (3117060489163571 / 1099511627776) = ''2834.9''"
  by (simp add: fixed1_def tenths_6250 Let_def digit_chars show_nat.simps)

lemma fixed_18750: "fixed1 (4675590733745357 / 549755813888) = ''8504.9''"
  by (simp add: fixed1_def tenths_18750 Let_def digit_chars show_nat.simps)

lemma gt_zero_truthy: "parseFloat_of v = Some x \<Longrightarrow> gt_zero x \<Longrightarrow> truthy (Some v)"
proof (cases v)
  case (JStr s)
  assume "parseFloat_of v = Some x" "gt_zero x"
  with JStr have "parseFloat s \<noteq> NaN" by auto
  then have "s \<noteq> []" by (auto simp: parseFloat_def trimStart_def scan_decimal_def)
  with JStr show ?thesis by simp
qed auto

lemma weight_texts_lbs:
  assumes "parseFloat_of wv = Some (Fin w)" "0 < w"
  shows "weight_texts (Some wv) (Some (JStr ''lbs'')) =
     Some ([Text (nl @ ''Weight: ''), Number (Fin w), Text '' lbs ('',
       toFixed1 (num_mul (Fin w) lbs_to_kg), Text '' kg)''],
      [toFixed1 (num_mul (Fin w) lbs_to_kg), Text '' kg''])"
proof -
  from assms have "truthy (Some wv)" by (intro gt_zero_truthy[of wv "Fin w"]) simp_all
  with assms show ?thesis by (simp add: weight_texts_def isNaN_def Let_def)
qed


lemma embed_shape:
  "\<exists>pre mid post. a @ b @ wi @ pg @ c @ ([t] @ wc @ t2) @ r = pre @ wi @ mid @ [t] @ wc @ post"
  by (rule exI[of _ "a @ b"], rule exI[of _ "pg @ c"], rule exI[of _ "t2 @ r"]) simp

lemma build_prompt_weight:
  assumes "wc \<noteq> []"
  shows "\<exists>pre mid post. build_prompt wt d pc wi wc pg =
           pre @ wi @ mid @ [Text ''Use the person's weight of ''] @ wc @ post"
  unfolding build_prompt_def if_P[OF assms] by (rule embed_shape)

lemma the_prompt_weight:
  assumes "the_prompt body = Some p"
    and "weight_texts (get_prop body ''weight'') (get_prop body ''weightUnit'') = Some (wi, wc)"
    and "wc \<noteq> []"
  shows "\<exists>pre mid post. p = pre @ wi @ mid @ [Text ''Use the person's weight of ''] @ wc @ post"
proof -
  from assms(1,2) obtain wt d pc pg where "p = build_prompt wt d pc wi wc pg"
    by (auto simp: the_prompt_def Let_def split: option.splits json.splits if_splits)
  then show ?thesis using build_prompt_weight[OF assms(3)] by simp
qed

lemma digit_val_char_of: "d < 10 \<Longrightarrow> digit_val (char_of (48 + d)) = d"
  by (simp add: digit_val_def code_def)

lemma dec_value_snoc: "dec_value (ds @ [c]) = 10 * dec_value ds + digit_val c"
  by (simp add: dec_value_def)

lemma dec_value_show_nat: "dec_value (show_nat n) = n"
proof (induction n rule: show_nat.induct)
  case (1 n)
  show ?case
  proof (cases "n < 10")
    case True
    then have "show_nat n = [char_of (48 + n)]" by (subst show_nat.simps) simp
    with True show ?thesis
      using dec_value_snoc[of "[]" "char_of (48 + n)"]
      by (simp add: digit_val_char_of dec_value_def)
  next
    case False
    with 1 have "dec_value (show_nat (n div 10)) = n div 10" by simp
    moreover from False have "show_nat n = show_nat (n div 10) @ [char_of (48 + n mod 10)]"
      by (subst show_nat.simps) simp
    ultimately show ?thesis
      by (simp add: dec_value_snoc digit_val_char_of)
  qed
qed

lemma show_nat_nonempty: "show_nat n \<noteq> []"
  by (subst show_nat.simps) simp

lemma dec_value_leading_zero: "dec_value (''0'' @ m) = dec_value m"
  by (simp add: dec_value_def digit_val_def code_def)

lemma fixed1_shape:
  assumes "0 \<le> x"
  shows "\<exists>ip fp. fixed1 x = ip @ ''.'' @ [fp] \<and> dec_value (ip @ [fp]) = tenths x"
proof -
  define m' where "m' = (if length (show_nat (tenths x)) \<le> 1 then ''0'' @ show_nat (tenths x)
                          else show_nat (tenths x))"
  have ne: "m' \<noteq> []" by (simp add: m'_def show_nat_nonempty)
  have v: "dec_value m' = tenths x"
    by (simp add: m'_def dec_value_leading_zero dec_value_show_nat del: append.simps)
  have f: "fixed1 x = take (length m' - 1) m' @ ''.'' @ drop (length m' - 1) m'"
    using assms by (simp add: fixed1_def Let_def m'_def)
  have d: "drop (length m' - 1) m' = [last m']"
    using ne by (metis append_butlast_last_id append_eq_conv_conj length_butlast)
  have t: "take (length m' - 1) m' @ [last m'] = m'"
    using ne by (metis d append_take_drop_id)
  have "fixed1 x = take (length m' - 1) m' @ ''.'' @ [last m']" by (simp only: f d)
  moreover have "dec_value (take (length m' - 1) m' @ [last m']) = tenths x" by (simp only: t v)
  ultimately show ?thesis by blast
qed

lemma tenths_error:
  assumes "0 \<le> x"
  shows "\<bar>of_nat (tenths x) / 10 - x\<bar> \<le> 1 / 20"
proof -
  define n where "n = \<lfloor>x * 10 + 1 / 2\<rfloor>"
  have n0: "0 \<le> n" using assms by (simp add: n_def)
  have "of_int n \<le> x * 10 + 1 / 2" "x * 10 + 1 / 2 < of_int n + 1" unfolding n_def by linarith+
  then have "of_int n / 10 - x \<le> 1 / 20" "- (of_int n / 10 - x) \<le> 1 / 20" by (simp_all add: field_simps)
  then have b: "\<bar>of_int n / 10 - x\<bar> \<le> 1 / 20" by (simp only: abs_le_iff)
  have "tenths x = nat n" using assms by (simp add: tenths_def n_def)
  then have "(of_nat (tenths x) :: rat) = of_int n" using n0 by simp
  with b show ?thesis by simp
qed


lemma kg_bounds:
  assumes "1 \<le> w" "w \<le> 10 ^ 21"
  shows "\<exists>kg. num_mul (Fin w) lbs_to_kg = Fin kg \<and> 0 \<le> kg \<and> kg < 10 ^ 21
           \<and> \<bar>kg - w * (453592 / 1000000)\<bar> \<le> w / 2 ^ 53"
proof -
  define c :: rat where "c = 1021398381089119 / 2251799813685248"
  have c1: "1 / 4 \<le> c" and c2: "c \<le> 1 / 2" by (simp_all add: c_def)
  have w0: "0 < w" using assms(1) by simp
  have "(2::rat) powi (- 1022) \<le> 2 powi (- 2)" by (intro power_int_increasing) auto
  also have "\<dots> = 1 / 4" by simp
  also have "\<dots> \<le> c" by (rule c1)
  also have "c \<le> w * c" using assms(1) c1 by (simp add: mult_le_cancel_right1)
  finally have lo: "2 powi (- 1022) \<le> w * c" .
  have "w * c \<le> 10 ^ 21 * (1 / 2)" using assms(2) c2 c1 w0 by (intro mult_mono) auto
  also have "\<dots> < 2 ^ 70" by simp
  also have "(2::rat) ^ 70 = 2 powi 70" by simp
  also have "\<dots> \<le> 2 powi 1023" by (intro power_int_increasing) auto
  finally have hi: "w * c < 2 powi 1023" .
  from fl64_finite_error[OF lo hi] obtain kg where
    kg: "fl64 (w * c) = Fin kg" and err: "\<bar>kg - w * c\<bar> \<le> w * c / 2 ^ 53" by blast
  have m: "num_mul (Fin w) lbs_to_kg = Fin kg"
    by (simp add: lbs_to_kg_value kg flip: c_def)
  have wc: "w * c \<le> w / 2" using c2 w0 by simp
  from err have e1: "kg - w * c \<le> w * c / 2 ^ 53" and e2: "w * c - kg \<le> w * c / 2 ^ 53"
    by linarith+
  have small: "w * c / 2 ^ 53 \<le> w * c" using w0 c1 by (simp add: field_simps)
  have k0: "0 \<le> kg" using e2 small by linarith
  have "kg \<le> w * c + w * c" using e1 small by linarith
  also have "\<dots> \<le> w" using wc by linarith
  finally have "kg \<le> w" .
  have k21: "kg < 10 ^ 21"
  proof -
    have "kg \<le> w * c + w * c / 2 ^ 53" using e1 by linarith
    also have "\<dots> \<le> w * (1 / 2) + w * (1 / 2) / 2 ^ 53" using c2 w0 by (simp add: field_simps)
    also have "\<dots> < w" using w0 by (simp add: field_simps)
    finally show ?thesis using assms(2) by linarith
  qed
  define q :: rat where "q = 453592 / 1000000"
  have d: "\<bar>c - q\<bar> = 169 / 35184372088832000000" by (simp add: c_def q_def)
  have "w * c - w * q = w * (c - q)" by (simp add: right_diff_distrib)
  then have "\<bar>w * c - w * q\<bar> = w * \<bar>c - q\<bar>" using w0 by (simp only: abs_mult abs_of_pos)
  then have wq: "\<bar>w * c - w * q\<bar> = w * (169 / 35184372088832000000)" by (simp only: d)
  have "\<bar>kg - w * q\<bar> \<le> \<bar>kg - w * c\<bar> + \<bar>w * c - w * q\<bar>" by linarith
  also have "\<dots> \<le> w * c / 2 ^ 53 + w * (169 / 35184372088832000000)"
    using err by (simp only: wq)
  also have "\<dots> \<le> w * (1 / 2) / 2 ^ 53 + w * (169 / 35184372088832000000)"
    using c2 w0 by (simp add: field_simps)
  also have "\<dots> \<le> w / 2 ^ 53" using w0 by (simp add: field_simps)
  finally have "\<bar>kg - w * (453592 / 1000000)\<bar> \<le> w / 2 ^ 53" unfolding q_def .
  with m k0 k21 show ?thesis by blast
qed


lemma kg_150: "num_mul (Fin 150) lbs_to_kg = Fin (4787804911355245 / 70368744177664)"
  unfolding lbs_to_kg_value
  using fl64_near[of "150 * (1021398381089119 / 2251799813685248)" 6 4787804911355245] by simp

lemma tenths_150: "tenths (4787804911355245 / 70368744177664) = 680"
proof -
  have "\<lfloor>\<bar>4787804911355245 / 70368744177664 :: rat\<bar> * 10 + 1 / 2\<rfloor> = 680"
    by (intro floor_unique) simp_all
  then show ?thesis by (simp only: tenths_def)
qed

lemma fixed_150: "fixed1 (4787804911355245 / 70368744177664) = ''68.0''"
  by (simp add: fixed1_def tenths_150 Let_def digit_chars show_nat.simps)

lemma tenths_tie: "tenths (56699 / 20) = 28350"
proof -
  have "\<lfloor>\<bar>56699 / 20 :: rat\<bar> * 10 + 1 / 2\<rfloor> = 28350"
    by (intro floor_unique) simp_all
  then show ?thesis by (simp only: tenths_def)
qed

lemma fixed_tie: "fixed1 (56699 / 20) = ''2835.0''"
  by (simp add: fixed1_def tenths_tie Let_def digit_chars show_nat.simps)

lemmas parseFloat_eval = parseFloat_def trimStart_def scan_decimal_def scan_unsigned_def
  scan_exponent_def startsWith_def is_ws_def is_digit_def code_def dec_value_def digit_val_def
  fl64_numeral

lemma parseFloat_150: "parseFloat ''150'' = Fin 150"
  by (simp add: parseFloat_eval)

lemma parseFloat_6250: "parseFloat ''6250'' = Fin 6250"
  by (simp add: parseFloat_eval)

lemma parseFloat_18750: "parseFloat ''18750'' = Fin 18750"
  by (simp add: parseFloat_eval)

lemma lower_Running: "toLowerCase ''Running'' = ''running''"
  by code_simp

lemma prompt_run:
  assumes "parseFloat w = Fin x" "0 < x"
  shows "the_prompt (run_body w) =
     Some (build_prompt ''Running'' (Fin 30) None
       [Text (nl @ ''Weight: ''), Number (Fin x), Text '' lbs ('',
        toFixed1 (num_mul (Fin x) lbs_to_kg), Text '' kg)'']
       [toFixed1 (num_mul (Fin x) lbs_to_kg), Text '' kg''] [])"
proof -
  have "parseFloat_of (JStr w) = Some (Fin x)" using assms(1) by simp
  from weight_texts_lbs[OF this assms(2)] show ?thesis
    by (simp add: the_prompt_def run_body_def lower_Running)
qed

lemma validate_run: "validate_input (run_body w) = None"
  by (simp add: validate_input_def run_body_def isNaN_def)

text \<open>
  C8, as the code has it. For a request that is accepted and whose prompt is built, with a
  weight that parses to a positive number \<open>w\<close> and the unit \<open>lbs\<close>, whatever the workout type is:
  the prompt handed to the completion service embeds, in its weight line and in its
  instruction, \<open>weightKg.toFixed(1)\<close>, where \<open>weightKg\<close> is the binary64 product of \<open>w\<close> and the
  binary64 constant nearest to 0.453592. For \<open>w\<close> from 1 to \<open>10^21\<close> that text is a decimal with
  one digit after the point, and it differs from the exact product \<open>w * 0.453592\<close> by at most
  0.05 (the rounding to one decimal) plus \<open>w / 2^53\<close> (the rounding of the arithmetic).
\<close>

theorem pounds_to_kilograms_in_prompt:
  assumes "body \<noteq> JNull" "validate_input body = None" "check_api_key api_key = None"
    and "the_prompt body = Some prompt"
    and "get_prop body ''weight'' = Some wv" "parseFloat_of wv = Some (Fin w)" "0 < w"
    and "get_prop body ''weightUnit'' = Some (JStr ''lbs'')"
  shows "POST api_key openai (Some body) =
           call_service openai prompt (the (get_prop body ''workoutType''))
             (the (parseFloat_of (the (get_prop body ''duration''))))
       \<and> (\<exists>pre mid post. prompt =
             pre @ [Text (nl @ ''Weight: ''), Number (Fin w), Text '' lbs ('',
                    toFixed1 (num_mul (Fin w) lbs_to_kg), Text '' kg)'']
             @ mid @ [Text ''Use the person's weight of '',
                      toFixed1 (num_mul (Fin w) lbs_to_kg), Text '' kg''] @ post)
       \<and> (1 \<le> w \<and> w \<le> 10 ^ 21 \<longrightarrow>
            (\<exists>ip fp. toFixed1 (num_mul (Fin w) lbs_to_kg) = Text (ip @ ''.'' @ [fp])
               \<and> \<bar>of_nat (dec_value (ip @ [fp])) / 10 - w * (453592 / 1000000)\<bar>
                    \<le> 1 / 20 + w / 2 ^ 53))"
proof -
  have wt: "weight_texts (get_prop body ''weight'') (get_prop body ''weightUnit'') =
     Some ([Text (nl @ ''Weight: ''), Number (Fin w), Text '' lbs ('',
       toFixed1 (num_mul (Fin w) lbs_to_kg), Text '' kg)''],
      [toFixed1 (num_mul (Fin w) lbs_to_kg), Text '' kg''])"
    unfolding assms(5,8) by (rule weight_texts_lbs[OF assms(6,7)])
  from the_prompt_weight[OF assms(4) wt] have emb:
    "\<exists>pre mid post. prompt =
             pre @ [Text (nl @ ''Weight: ''), Number (Fin w), Text '' lbs ('',
                    toFixed1 (num_mul (Fin w) lbs_to_kg), Text '' kg)'']
             @ mid @ [Text ''Use the person's weight of '',
                      toFixed1 (num_mul (Fin w) lbs_to_kg), Text '' kg''] @ post"
    by simp
  have num: "\<exists>ip fp. toFixed1 (num_mul (Fin w) lbs_to_kg) = Text (ip @ ''.'' @ [fp])
               \<and> \<bar>of_nat (dec_value (ip @ [fp])) / 10 - w * (453592 / 1000000)\<bar>
                    \<le> 1 / 20 + w / 2 ^ 53"
    if r: "1 \<le> w" "w \<le> 10 ^ 21"
  proof -
    from kg_bounds[OF r] obtain kg where m: "num_mul (Fin w) lbs_to_kg = Fin kg"
      and k0: "0 \<le> kg" and k21: "kg < 10 ^ 21"
      and e: "\<bar>kg - w * (453592 / 1000000)\<bar> \<le> w / 2 ^ 53" by blast
    from fixed1_shape[OF k0] obtain ip fp where
      f: "fixed1 kg = ip @ ''.'' @ [fp]" and v: "dec_value (ip @ [fp]) = tenths kg" by blast
    have t: "toFixed1 (num_mul (Fin w) lbs_to_kg) = Text (ip @ ''.'' @ [fp])"
      using k0 k21 by (simp add: m f)
    from tenths_error[OF k0] have "\<bar>of_nat (tenths kg) / 10 - kg\<bar> \<le> 1 / 20" .
    with e have "\<bar>of_nat (tenths kg) / 10 - w * (453592 / 1000000)\<bar> \<le> 1 / 20 + w / 2 ^ 53"
      by linarith
    with t v show ?thesis by metis
  qed
  from POST_reaches_service[OF assms(1-4)] emb num show ?thesis by blast
qed

theorem pounds_to_kilograms_in_prompt_witness:
  "run_body ''150'' \<noteq> JNull \<and> validate_input (run_body ''150'') = None
   \<and> check_api_key (Some ''sk-test'') = None
   \<and> get_prop (run_body ''150'') ''weight'' = Some (JStr ''150'')
   \<and> parseFloat_of (JStr ''150'') = Some (Fin 150)
   \<and> get_prop (run_body ''150'') ''weightUnit'' = Some (JStr ''lbs'')
   \<and> toFixed1 (num_mul (Fin 150) lbs_to_kg) = Text ''68.0''
   \<and> (1 :: rat) \<le> 150 \<and> (150 :: rat) \<le> 10 ^ 21
   \<and> \<bar>of_nat (dec_value ''680'') / 10 - 150 * (453592 / 1000000)\<bar> \<le> 1 / 20 + (150 :: rat) / 2 ^ 53
   \<and> (\<exists>pre mid post. the_prompt (run_body ''150'') =
         Some (pre @ [Text (nl @ ''Weight: ''), Number (Fin 150), Text '' lbs ('', Text ''68.0'',
                      Text '' kg)'']
               @ mid @ [Text ''Use the person's weight of '', Text ''68.0'', Text '' kg''] @ post))"
proof -
  have a: "run_body ''150'' \<noteq> JNull" by (simp add: run_body_def)
  have w: "get_prop (run_body ''150'') ''weight'' = Some (JStr ''150'')"
    and u: "get_prop (run_body ''150'') ''weightUnit'' = Some (JStr ''lbs'')"
    by (simp_all add: run_body_def)
  have p: "parseFloat_of (JStr ''150'') = Some (Fin 150)" by (simp add: parseFloat_150)
  have f: "toFixed1 (num_mul (Fin 150) lbs_to_kg) = Text ''68.0''"
    by (simp add: kg_150 fixed_150)
  have pr: "the_prompt (run_body ''150'') = Some (build_prompt ''Running'' (Fin 30) None
       [Text (nl @ ''Weight: ''), Number (Fin 150), Text '' lbs ('', Text ''68.0'', Text '' kg)'']
       [Text ''68.0'', Text '' kg''] [])"
    using prompt_run[OF parseFloat_150] by (simp add: f)
  have r: "(1 :: rat) \<le> 150 \<and> (150 :: rat) \<le> 10 ^ 21" by simp
  note inst = pounds_to_kilograms_in_prompt[OF a validate_run key_ok pr w p _ u, of silent_service]
  from inst r obtain ip fp where
    t: "toFixed1 (num_mul (Fin 150) lbs_to_kg) = Text (ip @ ''.'' @ [fp])"
    and b: "\<bar>of_nat (dec_value (ip @ [fp])) / 10 - 150 * (453592 / 1000000)\<bar>
              \<le> 1 / 20 + (150 :: rat) / 2 ^ 53"
    by auto
  from t f have "ip @ [CHR ''.'', fp] = ''68'' @ [CHR ''.'', CHR ''0'']" by simp
  then have "ip = ''68''" "fp = CHR ''0''" by simp_all
  with b have n: "\<bar>of_nat (dec_value ''680'') / 10 - 150 * (453592 / 1000000)\<bar>
              \<le> 1 / 20 + (150 :: rat) / 2 ^ 53" by simp
  from inst have "\<exists>pre mid post. the_prompt (run_body ''150'') =
         Some (pre @ [Text (nl @ ''Weight: ''), Number (Fin 150), Text '' lbs ('', Text ''68.0'',
                      Text '' kg)'']
               @ mid @ [Text ''Use the person's weight of '', Text ''68.0'', Text '' kg''] @ post)"
    by (simp add: f pr)
  with a validate_run key_ok w p u f r n show ?thesis by blast
qed

text \<open>
  C8 as stated fails: for 6250 lbs the exact product with 0.453592 is 2834.95 (which is
  \<open>56699 / 20\<close>), and rounded to one decimal by the rule of \<open>toFixed\<close> it is 2835.0; the binary64
  product lies just below 2834.95 and the prompt embeds 2834.9.
\<close>

theorem pounds_tie_counterexample:
  "validate_input (run_body ''6250'') = None
   \<and> the_prompt (run_body ''6250'') = Some (build_prompt ''Running'' (Fin 30) None
       [Text (nl @ ''Weight: ''), Number (Fin 6250), Text '' lbs ('', Text ''2834.9'', Text '' kg)'']
       [Text ''2834.9'', Text '' kg''] [])
   \<and> (6250 :: rat) * (453592 / 1000000) = 56699 / 20
   \<and> fixed1 (56699 / 20) = ''2835.0''"
  using prompt_run[OF parseFloat_6250]
  by (simp add: validate_run kg_6250 fixed_6250 fixed_tie)

end
